theory Spec2Isabelle
  imports
    Complex_Main
    "HOL-Library.Char_ord"
    "HOL-Library.List_Lexorder"
    "HOL-Library.Sublist"
begin

section \<open>Python strings and paths\<close>

text \<open>
  Python \<open>str\<close> values are modelled as \<open>string\<close> (lists of 8-bit characters), so the
  model covers ASCII text. The order on strings is the lexicographic order on character
  codes (\<open>Char_ord\<close>, \<open>List_Lexorder\<close>), which is how Python compares \<open>str\<close> values.
\<close>

definition nl :: string where
  "nl = [CHR 0x0A]"

definition bslash :: char where
  "bslash = CHR 0x5C"

text \<open>\<open>sep.join(xs)\<close>.\<close>

fun join :: "string \<Rightarrow> string list \<Rightarrow> string" where
  "join sep [] = []"
| "join sep [x] = x"
| "join sep (x # y # ys) = x @ sep @ join sep (y # ys)"

text \<open>\<open>s.split(sep)\<close> for a one-character separator.\<close>

fun split_on :: "char \<Rightarrow> string \<Rightarrow> string list" where
  "split_on sep [] = [[]]"
| "split_on sep (c # cs) =
     (if c = sep then [] # split_on sep cs
      else (case split_on sep cs of
              [] \<Rightarrow> [[c]]
            | l # ls \<Rightarrow> (c # l) # ls))"

text \<open>
  \<open>s.replace(old, new)\<close>: every non-overlapping occurrence of \<open>old\<close>, scanning from the
  left. With an empty \<open>old\<close> Python inserts \<open>new\<close> before every character and at the end.
\<close>

function replace :: "string \<Rightarrow> string \<Rightarrow> string \<Rightarrow> string" where
  "replace old new s =
     (if old = [] then new @ concat (map (\<lambda>c. c # new) s)
      else if s = [] then []
      else if prefix old s then new @ replace old new (drop (length old) s)
      else hd s # replace old new (tl s))"
  by pat_completeness auto
termination
  by (relation "measure (\<lambda>(old, new, s). length s)") auto

declare replace.simps [simp del]

text \<open>The characters \<open>str.isspace\<close> accepts, within ASCII.\<close>

definition isspace :: "char \<Rightarrow> bool" where
  "isspace c \<longleftrightarrow>
     (let n = (of_char c :: nat) in (9 \<le> n \<and> n \<le> 13) \<or> (28 \<le> n \<and> n \<le> 32))"

text \<open>\<open>s.strip()\<close>, \<open>s.startswith(p)\<close>, \<open>s.endswith(p)\<close>, \<open>sub in s\<close>.\<close>

definition lstrip :: "string \<Rightarrow> string" where
  "lstrip s = dropWhile isspace s"

definition rstrip :: "string \<Rightarrow> string" where
  "rstrip s = rev (dropWhile isspace (rev s))"

definition strip :: "string \<Rightarrow> string" where
  "strip s = rstrip (lstrip s)"

definition startswith :: "string \<Rightarrow> string \<Rightarrow> bool" where
  "startswith s p = prefix p s"

definition endswith :: "string \<Rightarrow> string \<Rightarrow> bool" where
  "endswith s p = suffix p s"

fun contains :: "string \<Rightarrow> string \<Rightarrow> bool" where
  "contains [] sub = (sub = [])"
| "contains (c # cs) sub = (prefix sub (c # cs) \<or> contains cs sub)"

text \<open>
  \<open>s.splitlines(keepends=True)\<close>: the ASCII line boundaries are LF, CR, CR LF, VT, FF,
  FS, GS and RS. The first argument is the line read so far.
\<close>

definition islinebreak :: "char \<Rightarrow> bool" where
  "islinebreak c \<longleftrightarrow>
     (let n = (of_char c :: nat) in (10 \<le> n \<and> n \<le> 13) \<or> (28 \<le> n \<and> n \<le> 30))"

fun splitlines_from :: "string \<Rightarrow> string \<Rightarrow> string list" where
  "splitlines_from cur [] = (if cur = [] then [] else [cur])"
| "splitlines_from cur [c] = [cur @ [c]]"
| "splitlines_from cur (c # d # cs) =
     (if c = CHR 0x0D \<and> d = CHR 0x0A then (cur @ [c, d]) # splitlines_from [] cs
      else if islinebreak c then (cur @ [c]) # splitlines_from [] (d # cs)
      else splitlines_from (cur @ [c]) (d # cs))"

definition splitlines_keepends :: "string \<Rightarrow> string list" where
  "splitlines_keepends s = splitlines_from [] s"

text \<open>
  \<open>textwrap.indent(text, prefix)\<close> with the default predicate: the prefix goes before every
  line that has a character other than white space.
\<close>

definition indent :: "string \<Rightarrow> string \<Rightarrow> string" where
  "indent text pre =
     concat (map (\<lambda>line. if strip line \<noteq> [] then pre @ line else line)
                 (splitlines_keepends text))"

text \<open>
  \<open>textwrap.dedent(text)\<close>: lines of blanks and tabs only become empty, the margin is the
  longest run of leading blanks and tabs common to the other lines, and it is removed
  from the start of every line.
\<close>

definition isblank :: "char \<Rightarrow> bool" where
  "isblank c \<longleftrightarrow> c = CHR '' '' \<or> c = CHR 0x09"

definition dedent :: "string \<Rightarrow> string" where
  "dedent text =
     (let ls = map (\<lambda>l. if list_all isblank l then [] else l) (split_on (CHR 0x0A) text);
          indents = map (takeWhile isblank) (filter (\<lambda>l. dropWhile isblank l \<noteq> []) ls)
      in case indents of
           [] \<Rightarrow> join nl ls
         | i # is \<Rightarrow>
             (let margin = fold longest_common_prefix is i
              in join nl (map (\<lambda>l. if prefix margin l then drop (length margin) l else l) ls)))"

text \<open>\<open>os.path.join(a, b)\<close> and \<open>os.path.dirname(p)\<close> of \<open>posixpath\<close>.\<close>

definition path_join :: "string \<Rightarrow> string \<Rightarrow> string" where
  "path_join a b =
     (if startswith b ''/'' then b
      else if a = [] \<or> endswith a ''/'' then a @ b
      else a @ ''/'' @ b)"

definition dirname :: "string \<Rightarrow> string" where
  "dirname p =
     (let head = rev (dropWhile (\<lambda>c. c \<noteq> CHR ''/'') (rev p))
      in if head \<noteq> [] \<and> \<not> list_all (\<lambda>c. c = CHR ''/'') head
         then rev (dropWhile (\<lambda>c. c = CHR ''/'') (rev head))
         else head)"

text \<open>
  \<open>str(pathlib.Path(s))\<close> on a POSIX system: empty components and \<open>.\<close> components go,
  a leading slash is the root, exactly two leading slashes are a root of their own, and
  the path without root and components is \<open>.\<close>.
\<close>

definition path_root :: "string \<Rightarrow> string" where
  "path_root s =
     (if startswith s ''//'' \<and> \<not> startswith s ''///'' then ''//''
      else if startswith s ''/'' then ''/''
      else [])"

definition path_parts :: "string \<Rightarrow> string list" where
  "path_parts s = filter (\<lambda>part. part \<noteq> [] \<and> part \<noteq> ''.'') (split_on (CHR ''/'') s)"

definition Path :: "string \<Rightarrow> string" where
  "Path s =
     (if path_root s = [] \<and> path_parts s = [] then ''.''
      else path_root s @ join ''/'' (path_parts s))"

text \<open>\<open>str(Path(a, b))\<close> for a path \<open>a\<close> and a segment \<open>b\<close>.\<close>

definition Path_joined :: "string \<Rightarrow> string \<Rightarrow> string" where
  "Path_joined a b = Path (path_join a b)"

section \<open>The module-registration header\<close>

text \<open>
  A feature set of \<open>batools.featureset\<close>, with the two attributes the generator reads.
\<close>

record featureset =
  has_python_binary_module :: bool
  name_python_binary_module :: string

text \<open>
  \<open>pymodulenames\<close>: the feature sets without native modules are filtered out and the
  module names of the others are sorted.
\<close>

definition pymodulenames :: "featureset list \<Rightarrow> string list" where
  "pymodulenames featuresets =
     sort (map name_python_binary_module (filter has_python_binary_module featuresets))"

definition initname :: "string \<Rightarrow> string" where
  "initname mname =
     (if mname = ''_baplus'' then ''DoPyInit_'' @ mname else ''PyInit_'' @ mname)"

definition extern_def_line :: "string \<Rightarrow> string" where
  "extern_def_line n = ''auto '' @ initname n @ ''() -> PyObject*;''"

definition extern_def_code :: "string list \<Rightarrow> string" where
  "extern_def_code names = join nl (map extern_def_line names)"

definition py_register_line :: "string \<Rightarrow> string" where
  \<open>py_register_line n =
     ''PyImport_AppendInittab("'' @ n @ ''", &'' @ initname n @ '');''\<close>

definition py_register_code :: "string list \<Rightarrow> string" where
  "py_register_code names = join nl (map py_register_line names)"

definition plus_forwarding_code :: string where
  \<open>plus_forwarding_code =
     ''\<newline>'' @
     ''// Slight hack: because we are currently building baplus as a'' @
     '' static module\<newline>'' @
     ''// and linking it in, symbols exported there (namely'' @
     '' PyInit__baplus) do not\<newline>'' @
     ''// seem to be available through us when we are compiled as'' @
     '' a dynamic\<newline>'' @
     ''// library. This leads to Python being unable to load baplus.'' @
     '' While I'm sure\<newline>'' @
     ''// there is some way to get those symbols exported, I'm worried'' @
     '' it might be\<newline>'' @
     ''// a messy platform-specific affair. So instead we're just'' @
     '' defining that\<newline>'' @
     ''// function here when baplus is present and forwarding it through'' @
     '' to the\<newline>'' @
     ''// static library version.\<newline>'' @
     ''extern "C" auto PyInit__baplus() -> PyObject* {\<newline>'' @
     ''  return DoPyInit__baplus();\<newline>'' @
     ''}\<newline>''\<close>

definition init_plus_code :: "string list \<Rightarrow> string" where
  "init_plus_code names = (if ''_baplus'' \<in> set names then plus_forwarding_code else [])"

text \<open>The lines of the template \<open>base_code\<close>, a string in triple quotes.\<close>

definition base_code_lines :: "string list" where
  \<open>base_code_lines =
     ['''',
      ''        // Released under the MIT License. See LICENSE for details.'',
      '''',
      ''        #ifndef BALLISTICA_CORE_MGEN_PYTHON_MODULES_MONOLITHIC_H_'',
      ''        #define BALLISTICA_CORE_MGEN_PYTHON_MODULES_MONOLITHIC_H_'',
      '''',
      ''        // THIS CODE IS AUTOGENERATED BY META BUILD; DO NOT EDIT BY HAND.'',
      '''',
      ''        #include "ballistica/shared/ballistica.h"'',
      ''        #include "ballistica/shared/python/python_sys.h"'',
      '''',
      ''        extern "C" {'',
      ''        ${EXTERN_DEF_CODE}'',
      ''        }'',
      '''',
      ''        namespace ballistica {'',
      '''',
      ''        /// Register init calls for all of our built-in Python modules.'',
      ''        /// Should only be used in monolithic builds. In modular builds'',
      ''        /// binary modules get located as .so files on disk as per regular'',
      ''        /// Python behavior.'',
      ''        void MonolithicRegisterPythonModules() {'',
      ''          if (g_buildconfig.monolithic_build()) {'',
      ''        ${PY_REGISTER_CODE}'',
      ''          } else {'',
      ''            FatalError('',
      ''                "MonolithicRegisterPythonModules should not be called"'',
      ''                " in modular builds.");'',
      ''          }'',
      ''        }'',
      ''        ${PY_INIT_PLUS}'',
      ''        }  // namespace ballistica'',
      '''',
      ''        #endif  // BALLISTICA_CORE_MGEN_PYTHON_MODULES_MONOLITHIC_H_'',
      ''        '']\<close>

definition base_code :: string where
  "base_code = join nl base_code_lines"

text \<open>The text written to the output file.\<close>

definition monolithic_header :: "string list \<Rightarrow> string" where
  "monolithic_header names =
     strip
       (replace ''${PY_INIT_PLUS}'' (init_plus_code names)
         (replace ''${PY_REGISTER_CODE}'' (indent (py_register_code names) ''    '')
           (replace ''${EXTERN_DEF_CODE}'' (extern_def_code names)
             (dedent base_code))))
     @ nl"

section \<open>Errors, effects and the environment of a command\<close>

text \<open>
  The exceptions a command can end with. \<open>BatchMisuse\<close> is what the batch guard raises,
  \<open>SystemExit\<close> carries the exit status, \<open>CalledProcessError\<close> the return code of a child
  process run with \<open>check=True\<close>, \<open>OSError\<close> stands for a failed system call.
\<close>

datatype error =
    BatchMisuse
  | CleanError string
  | SystemExit int
  | CalledProcessError int
  | OSError
  | ValueError

text \<open>\<open>except Exception\<close> catches everything but \<open>SystemExit\<close>.\<close>

fun is_exception :: "error \<Rightarrow> bool" where
  "is_exception (SystemExit _) = False"
| "is_exception _ = True"

text \<open>
  What a command does to the world outside, in the order it does it. \<open>Print\<close> carries the
  exact text written to standard output; the last four are calls into sibling modules.
\<close>

datatype event =
    Print string
  | LogException string
  | Chdir string
  | SysPathAppend string
  | Makedirs string
  | WriteFile string string
  | Unlink string
  | Run "string list"
  | RunIn string "string list"
  | RunShell string
  | PyExamine string string int int "string option" string
  | GetTarget string bool bool
  | SpinoffTest "string list"
  | AcquireBinary string

text \<open>Everything but output to the terminal and the log is a side effect.\<close>

fun side_effect :: "event \<Rightarrow> bool" where
  "side_effect (Print _) = False"
| "side_effect (LogException _) = False"
| "side_effect _ = True"

record completed =
  returncode :: int
  stdout :: string

text \<open>
  The environment of one invocation: the dispatcher's state (\<open>batch\<close>, \<open>argv\<close>,
  \<open>projroot\<close>, \<open>clr\<close>), the process state, and the answers of the file system, of child
  processes and of sibling modules at the moment the command asks. \<open>subprocess\<close> is
  \<open>None\<close> when the program cannot be started, \<open>os_error\<close> tells which system calls
  fail, \<open>call_error\<close> what a sibling module raises. \<open>getmtime\<close> is \<open>None\<close> where
  \<open>os.path.getmtime\<close> raises, \<open>py_int\<close> where \<open>int\<close> raises; \<open>json_list\<close> is the list of
  strings read from a JSON file, or the exception that opening or decoding it raises.
  The output of a child process is taken as decoded text.
\<close>

record world =
  batch :: bool
  argv :: "string list"
  projroot :: string
  clr :: bool
  environ :: "string \<Rightarrow> string option"
  getcwd :: string
  sys_path :: "string list"
  path_exists :: "string \<Rightarrow> bool"
  path_isdir :: "string \<Rightarrow> bool"
  path_islink :: "string \<Rightarrow> bool"
  getmtime :: "string \<Rightarrow> real option"
  abspath :: "string \<Rightarrow> string"
  py_int :: "string \<Rightarrow> int option"
  json_list :: "string \<Rightarrow> error + string list"
  subprocess :: "event \<Rightarrow> completed option"
  os_error :: "event \<Rightarrow> bool"
  call_error :: "event \<Rightarrow> error option"
  featuresets :: "featureset list"
  prefab_platform :: string
  project_centric_path :: "string \<Rightarrow> string"
  test_runs_disabled :: bool
  clr_bld :: string
  clr_rst :: string

text \<open>
  A command returns the effects it performed, and an error or a value. \<open>and_then\<close> is
  sequencing: an error ends the command with the effects performed so far.
\<close>

type_synonym 'a outcome = "event list \<times> (error + 'a)"

definition ret :: "'a \<Rightarrow> 'a outcome" where
  "ret x = ([], Inr x)"

definition raise :: "error \<Rightarrow> 'a outcome" where
  "raise e = ([], Inl e)"

definition and_then :: "'a outcome \<Rightarrow> ('a \<Rightarrow> 'b outcome) \<Rightarrow> 'b outcome" where
  "and_then m k =
     (case m of
        (t, Inl e) \<Rightarrow> (t, Inl e)
      | (t, Inr x) \<Rightarrow> (case k x of (t', r) \<Rightarrow> (t @ t', r)))"

definition emit :: "event \<Rightarrow> unit outcome" where
  "emit ev = ([ev], Inr ())"

definition perform :: "world \<Rightarrow> event \<Rightarrow> unit outcome" where
  "perform w ev = ([ev], if os_error w ev then Inl OSError else Inr ())"

definition call :: "world \<Rightarrow> event \<Rightarrow> unit outcome" where
  "call w ev = ([ev], case call_error w ev of Some e \<Rightarrow> Inl e | None \<Rightarrow> Inr ())"

text \<open>\<open>subprocess.run\<close>, by the event that starts the child process.\<close>

definition run_event :: "world \<Rightarrow> bool \<Rightarrow> event \<Rightarrow> completed outcome" where
  "run_event w check ev =
     ([ev],
      case subprocess w ev of
        None \<Rightarrow> Inl OSError
      | Some c \<Rightarrow> if check \<and> returncode c \<noteq> 0 then Inl (CalledProcessError (returncode c))
                  else Inr c)"

definition run :: "world \<Rightarrow> bool \<Rightarrow> string list \<Rightarrow> completed outcome" where
  "run w check cmd = run_event w check (Run cmd)"

fun for_each :: "'a list \<Rightarrow> ('a \<Rightarrow> unit outcome) \<Rightarrow> unit outcome" where
  "for_each [] body = ret ()"
| "for_each (x # xs) body = and_then (body x) (\<lambda>_. for_each xs body)"

text \<open>
  Modelled from the spec: \<open>pcommand.disallow_in_batch\<close> of \<open>efrotools\<close> is not part of the
  sources at hand. It is the guard a command calls to assert that it is not running
  under batch dispatch, raising a misuse error otherwise.
\<close>

definition disallow_in_batch :: "world \<Rightarrow> unit outcome" where
  "disallow_in_batch w = (if batch w then raise BatchMisuse else ret ())"

section \<open>The commands\<close>

definition gen_monolithic_register_modules :: "world \<Rightarrow> unit outcome" where
  "gen_monolithic_register_modules w =
     and_then (disallow_in_batch w) (\<lambda>_.
     if length (argv w) \<noteq> 3 then raise (CleanError ''Expected 1 arg.'')
     else
       let outpath = argv w ! 2;
           out = monolithic_header (pymodulenames (featuresets w))
       in and_then (perform w (Makedirs (dirname outpath))) (\<lambda>_.
          perform w (WriteFile outpath out)))"

definition py_examine :: "world \<Rightarrow> unit outcome" where
  "py_examine w =
     and_then (disallow_in_batch w) (\<lambda>_.
     if length (argv w) \<noteq> 7 then
       and_then (emit (Print (''ERROR: expected 7 args'' @ nl))) (\<lambda>_.
       raise (SystemExit 255))
     else
       let filename = Path (argv w ! 2) in
       case py_int w (argv w ! 3) of
         None \<Rightarrow> raise ValueError
       | Some line \<Rightarrow>
      (case py_int w (argv w ! 4) of
         None \<Rightarrow> raise ValueError
       | Some column \<Rightarrow>
       let selection = (if argv w ! 5 = [] then None else Some (argv w ! 5));
           operation = argv w ! 6
       in and_then (perform w (Chdir (projroot w))) (\<lambda>_.
          let scriptsdir =
                abspath w (path_join (dirname (argv w ! 0)) ''../src/assets/ba_data/python'');
              toolsdir = abspath w (path_join (dirname (argv w ! 0)) ''../tools'');
              path1 = (if scriptsdir \<notin> set (sys_path w) then sys_path w @ [scriptsdir]
                       else sys_path w)
          in and_then (if scriptsdir \<notin> set (sys_path w) then emit (SysPathAppend scriptsdir)
                       else ret ()) (\<lambda>_.
             and_then (if toolsdir \<notin> set path1 then emit (SysPathAppend toolsdir)
                       else ret ()) (\<lambda>_.
             call w (PyExamine (projroot w) filename line column selection operation))))))"

definition win_ci_needed_targets :: "string list \<Rightarrow> string list \<Rightarrow> string set" where
  "win_ci_needed_targets meta_public meta_private =
     {''build/prefab/lib/windows/Debug_Win32'' @ ''/BallisticaKitGenericPlus.lib'',
      ''build/prefab/lib/windows/Debug_Win32'' @ ''/BallisticaKitGenericPlus.pdb'',
      ''ballisticakit-windows/Generic/BallisticaKit.ico''}
     \<union> set (filter (\<lambda>target.
            (startswith target ''src/ballistica/'' \<and> contains target ''/mgen/'')
            \<or> (startswith target ''src/assets/ba_data/python/''
                \<and> contains target ''/_mgen/''))
          (meta_public @ meta_private))"

text \<open>
  Python leaves the order in which a set is iterated open; the model fetches the targets
  in sorted order.
\<close>

definition win_ci_install_prereqs :: "world \<Rightarrow> unit outcome" where
  "win_ci_install_prereqs w =
     and_then (disallow_in_batch w) (\<lambda>_.
     case json_list w ''src/meta/.meta_manifest_public.json'' of
       Inl e \<Rightarrow> raise e
     | Inr meta_public \<Rightarrow>
    (case json_list w ''src/meta/.meta_manifest_private.json'' of
       Inl e \<Rightarrow> raise e
     | Inr meta_private \<Rightarrow>
       for_each (sorted_list_of_set (win_ci_needed_targets meta_public meta_private))
         (\<lambda>target. call w (GetTarget target (batch w) (clr w)))))"

definition msbuild_command :: "string list" where
  "msbuild_command =
     [join [bslash] [''C:'', ''Program Files (x86)'', ''Microsoft Visual Studio'', ''2019'',
                     ''Enterprise'', ''MSBuild'', ''Current'', ''Bin'', ''MSBuild.exe''],
      join [bslash] [''ballisticakit-windows'', ''Generic'', ''BallisticaKitGeneric.vcxproj''],
      ''-target:Build'',
      ''-property:Configuration=Debug'',
      ''-property:Platform=Win32'',
      ''-property:VisualStudioVersion=16'']"

definition win_ci_binary_build :: "world \<Rightarrow> unit outcome" where
  "win_ci_binary_build w =
     and_then (disallow_in_batch w) (\<lambda>_.
     and_then (run w True msbuild_command) (\<lambda>_. ret ()))"

definition prefab_target :: "world \<Rightarrow> string \<Rightarrow> string \<Rightarrow> string" where
  "prefab_target w buildtype mode =
     ''build/prefab/lib/'' @ prefab_platform w
       @ (if buildtype = ''server'' then ''_server'' else ''_gui'')
       @ ''/'' @ mode @ ''/libballisticaplus.a''"

definition update_cmake_prefab_lib :: "world \<Rightarrow> unit outcome" where
  "update_cmake_prefab_lib w =
     and_then (disallow_in_batch w) (\<lambda>_.
     if length (argv w) \<noteq> 5 then
       raise (CleanError ''Expected 3 args (standard/server, debug/release, build-dir)'')
     else
       let buildtype = argv w ! 2; mode = argv w ! 3; builddir = argv w ! 4 in
       if buildtype \<notin> {''standard'', ''server''} then
         raise (CleanError (''Invalid buildtype: '' @ buildtype))
       else if mode \<notin> {''debug'', ''release''} then
         raise (CleanError (''Invalid mode: '' @ mode))
       else
         let target = prefab_target w buildtype mode in
         and_then (run w True [''make'', target]) (\<lambda>_.
         let libdir = path_join builddir ''prefablib'';
             libpath = path_join libdir ''libballisticaplus.a''
         in case getmtime w target of
              None \<Rightarrow> raise OSError
            | Some time1 \<Rightarrow>
         and_then (if path_exists w libpath then
                     (case getmtime w libpath of
                        None \<Rightarrow> raise OSError
                      | Some time2 \<Rightarrow> ret (\<not> time1 \<le> time2))
                   else ret True) (\<lambda>update.
         if update then
           and_then (if \<not> path_exists w libdir then perform w (Makedirs libdir)
                     else ret ()) (\<lambda>_.
           and_then (run w True [''cp'', target, libdir]) (\<lambda>_. ret ()))
         else ret ())))"

text \<open>
  A \<open>pathlib.Path\<close> is kept as the string \<open>str\<close> gives for it, which is what child
  processes and messages get. \<open>dst.mkdir(parents=True, exist_ok=True)\<close> is the effect
  \<open>Makedirs dst\<close>.
\<close>

definition archive_abis :: "(string \<times> string) list" where
  "archive_abis =
     [(''armeabi-v7a'', ''arm''), (''arm64-v8a'', ''arm64''), (''x86'', ''x86''),
      (''x86_64'', ''x86-64'')]"

definition archive_one :: "world \<Rightarrow> string \<Rightarrow> string \<Rightarrow> string \<times> string \<Rightarrow> unit outcome" where
  "archive_one w src dst ab =
     (let abi = fst ab; abishort = snd ab;
          libname = ''libmain''; libext = ''.so'';
          srcpath = Path_joined (Path_joined src abi) (libname @ libext);
          dstname = libname @ ''_'' @ abishort @ libext;
          dstpath = Path_joined dst dstname
      in if path_exists w srcpath then
           and_then (emit (Print (''Archiving unstripped library: '' @ clr_bld w @ dstname
                                  @ clr_rst w @ nl))) (\<lambda>_.
           and_then (run w True [''cp'', srcpath, dstpath]) (\<lambda>_.
           and_then (run_event w True (RunIn dst [''tar'', ''-zcf'', dstname @ ''.tgz'', dstname]))
             (\<lambda>_.
           and_then (run w True [''rm'', dstpath]) (\<lambda>_. ret ()))))
         else ret ())"

definition android_archive_unstripped_libs :: "world \<Rightarrow> unit outcome" where
  "android_archive_unstripped_libs w =
     and_then (disallow_in_batch w) (\<lambda>_.
     if length (argv w) \<noteq> 4 then raise (CleanError ''Expected 2 args; src-dir and dst-dir'')
     else
       let src = Path (argv w ! 2); dst = Path (argv w ! 3) in
       and_then (if path_exists w dst then
                   and_then (run w True [''rm'', ''-rf'', dst]) (\<lambda>_. ret ())
                 else ret ()) (\<lambda>_.
       and_then (perform w (Makedirs dst)) (\<lambda>_.
       if \<not> path_isdir w src then
         raise (CleanError (''Source dir not found: '' @ [CHR 0x27] @ src @ [CHR 0x27]))
       else for_each archive_abis (archive_one w src dst))))"

definition spinoff_test :: "world \<Rightarrow> unit outcome" where
  "spinoff_test w = call w (SpinoffTest (drop 2 (argv w)))"

definition spinoff_check_submodule_parent :: "world \<Rightarrow> unit outcome" where
  "spinoff_check_submodule_parent w =
     and_then (disallow_in_batch w) (\<lambda>_.
     if \<not> path_exists w ''tools/spinoff'' then
       raise (CleanError ''This does not appear to be a spinoff-enabled project.'')
     else if \<not> path_islink w ''tools/spinoff'' then
       raise (CleanError ''This project is a spinoff parent; we require a dst.'')
     else if \<not> path_isdir w ''submodules/ballistica'' then
       raise (CleanError
         (''This project is not using a submodule for its parent.\<newline>'' @
          ''To set one up, run `tools/spinoff add-submodule-parent`''))
     else ret ())"

definition gen_python_init_module :: "world \<Rightarrow> unit outcome" where
  "gen_python_init_module w =
     and_then (disallow_in_batch w) (\<lambda>_.
     if length (argv w) \<noteq> 3 then raise (CleanError ''Expected an outfile arg.'')
     else
       let outfilename = argv w ! 2 in
       and_then (perform w (Makedirs (dirname outfilename))) (\<lambda>_.
       let prettypath = project_centric_path w outfilename in
       and_then (emit (Print (''Meta-building '' @ clr_bld w @ prettypath @ clr_rst w @ nl)))
         (\<lambda>_.
       perform w (WriteFile outfilename
         (''# Released under the MIT License.'' @ '' See LICENSE for details.\<newline>'' @
          ''#\<newline>'')))))"

definition tests_warm_start :: "world \<Rightarrow> unit outcome" where
  "tests_warm_start w =
     and_then (disallow_in_batch w) (\<lambda>_.
     if \<not> test_runs_disabled w then call w (AcquireBinary ''running tests'')
     else ret ())"

text \<open>
  The wrapped paragraphs of the error message of \<open>wsl_build_check_win_drive\<close>:
  \<open>_wrap\<close> is \<open>textwrap.fill(txt, 76)\<close>, applied to four constant texts, and the
  paragraphs below are its results, with the line breaks where \<open>fill\<close> puts them.
\<close>

definition win_drive_paragraphs :: "string list" where
  "win_drive_paragraphs =
     [''ERROR: This project appears to live on the Linux filesystem.'',
      ''Visual Studio compiles will error here for reasons related to Linux\<newline>'' @
      ''filesystem case-sensitivity, and thus are disallowed. Clone the repo to a\<newline>'' @
      ''location that maps to a native Windows drive such as '' @ [CHR 0x27] @
      ''/mnt/c/ballistica'' @ [CHR 0x27] @ '' and\<newline>'' @
      ''try again.'',
      ''Note that WSL2 filesystem performance is poor when accessing native Windows\<newline>'' @
      ''drives, so if Visual Studio builds are not needed it may be best to keep\<newline>'' @
      ''things on the Linux filesystem. This behavior may differ under WSL1\<newline>'' @
      ''(untested).'',
      ''Set env-var WSL_BUILD_CHECK_WIN_DRIVE_IGNORE=1 to skip this check.'']"

definition win_drive_message :: string where
  "win_drive_message = join (nl @ nl) win_drive_paragraphs"

definition wsl_prefix :: string where
  "wsl_prefix = [bslash, bslash] @ ''wsl$''"

definition wsl_build_check_win_drive :: "world \<Rightarrow> unit outcome" where
  "wsl_build_check_win_drive w =
     and_then (disallow_in_batch w) (\<lambda>_.
     and_then (run w False [''which'', ''wslpath'']) (\<lambda>found.
     if returncode found \<noteq> 0 then
       raise (CleanError ''wslpath not found; you must run this from a WSL environment'')
     else if environ w ''WSL_BUILD_CHECK_WIN_DRIVE_IGNORE'' = Some ''1'' then ret ()
     else
       and_then (run w True [''wslpath'', ''-w'', ''-a'', getcwd w]) (\<lambda>translated.
       let path = strip (stdout translated) in
       if \<not> startswith path wsl_prefix then ret ()
       else raise (CleanError win_drive_message))))"

text \<open>
  The argument loop of \<open>wsl_path_to_win\<close>, over \<open>sys.argv[2:]\<close>, with the values of
  \<open>create\<close>, \<open>escape\<close> and \<open>wsl_path\<close> so far.
\<close>

fun wsl_parse_args ::
  "string list \<Rightarrow> bool \<Rightarrow> bool \<Rightarrow> string option \<Rightarrow> error + (bool \<times> bool \<times> string option)"
where
  "wsl_parse_args [] create escape wsl_path = Inr (create, escape, wsl_path)"
| "wsl_parse_args (arg # args) create escape wsl_path =
     (if arg = ''--create'' then wsl_parse_args args True escape wsl_path
      else if arg = ''--escape'' then wsl_parse_args args create True wsl_path
      else (case wsl_path of
              Some _ \<Rightarrow> Inl (CleanError ''More than one path provided.'')
            | None \<Rightarrow> wsl_parse_args args create escape (Some arg)))"

text \<open>The body of the \<open>try\<close> statement; it leaves \<open>escape\<close>, \<open>wsl_path\<close> and \<open>results\<close>.\<close>

definition wsl_path_to_win_guarded :: "world \<Rightarrow> (bool \<times> string \<times> completed) outcome" where
  "wsl_path_to_win_guarded w =
     (if length (argv w) < 3 then raise (CleanError ''Expected at least 1 path arg.'')
      else
        case wsl_parse_args (drop 2 (argv w)) False False None of
          Inl e \<Rightarrow> raise e
        | Inr (create, escape, None) \<Rightarrow> raise (CleanError ''No path provided.'')
        | Inr (create, escape, Some wsl_path) \<Rightarrow>
            and_then (if create then perform w (Makedirs wsl_path) else ret ()) (\<lambda>_.
            if \<not> path_exists w wsl_path then
              raise (CleanError (''Path '' @ [CHR 0x27] @ wsl_path @ [CHR 0x27]
                                 @ '' does not exist.''))
            else
              and_then (run w True [''wslpath'', ''-w'', ''-a'', wsl_path]) (\<lambda>results.
              ret (escape, wsl_path, results))))"

definition wsl_sentinel :: string where
  "wsl_sentinel = ''wsl_to_escaped_win_path_error_occurred''"

definition wsl_path_to_win :: "world \<Rightarrow> unit outcome" where
  "wsl_path_to_win w =
     and_then (disallow_in_batch w) (\<lambda>_.
     case wsl_path_to_win_guarded w of
       (t, Inl e) \<Rightarrow>
         if is_exception e then
           (t @ [LogException ''wsl_to_escaped_win_path failed.'', Print wsl_sentinel], Inr ())
         else (t, Inl e)
     | (t, Inr (escape, wsl_path, results)) \<Rightarrow>
         let out = strip (stdout results);
             out = (if endswith wsl_path ''/'' \<and> \<not> endswith out [bslash] then out @ [bslash]
                    else out);
             out = (if escape then replace [bslash] [bslash, bslash] out else out)
         in (t @ [Print out], Inr ()))"

section \<open>The built-assets tree and the orphan cleaner\<close>

text \<open>
  The directory \<open>build/assets\<close> as a tree: a file, or a directory with its entries in the
  order in which the system lists them.
\<close>

datatype node = File | Dir "(string \<times> node) list"

text \<open>
  \<open>os.walk(top)\<close>, top-down: for each directory its path, the names of its
  subdirectories and the names of its other entries, then the subdirectories in turn.
  A path that is not a directory yields nothing.
\<close>

fun is_dir_entry :: "string \<times> node \<Rightarrow> bool" where
  "is_dir_entry (n, Dir _) = True"
| "is_dir_entry (n, File) = False"

fun walk :: "string \<Rightarrow> node \<Rightarrow> (string \<times> string list \<times> string list) list"
and walk_subdirs :: "string \<Rightarrow> (string \<times> node) list \<Rightarrow> (string \<times> string list \<times> string list) list"
where
  "walk topdir File = []"
| "walk topdir (Dir es) =
     (topdir, map fst (filter is_dir_entry es), map fst (filter (\<lambda>e. \<not> is_dir_entry e) es))
     # walk_subdirs topdir es"
| "walk_subdirs topdir [] = []"
| "walk_subdirs topdir ((n, c) # es) =
     (case c of Dir _ \<Rightarrow> walk (path_join topdir n) c | File \<Rightarrow> []) @ walk_subdirs topdir es"

text \<open>
  The paths \<open>fpath\<close> of the two nested loops, in the order the loops visit them. Walking
  a directory that does not exist yields nothing.
\<close>

definition walk_files :: "(string \<times> string list \<times> string list) list \<Rightarrow> string list" where
  "walk_files walked =
     concat (map (\<lambda>(dirpath, dirs, fnames). map (path_join dirpath) fnames) walked)"

definition walked_files :: "string \<Rightarrow> node option \<Rightarrow> string list" where
  "walked_files topdir assets =
     (case assets of
        None \<Rightarrow> walk_files []
      | Some t \<Rightarrow> walk_files (walk topdir t))"

text \<open>
  \<open>os.unlink(p)\<close> on the tree that \<open>topdir\<close> names: the file entry whose path is \<open>p\<close> goes.
\<close>

fun unlink :: "string \<Rightarrow> string \<Rightarrow> node \<Rightarrow> node"
and unlink_entries :: "string \<Rightarrow> string \<Rightarrow> (string \<times> node) list \<Rightarrow> (string \<times> node) list"
where
  "unlink p topdir File = File"
| "unlink p topdir (Dir es) = Dir (unlink_entries p topdir es)"
| "unlink_entries p topdir [] = []"
| "unlink_entries p topdir ((n, c) # es) =
     (case c of
        File \<Rightarrow> (if path_join topdir n = p then [] else [(n, c)])
      | Dir _ \<Rightarrow> [(n, unlink p (path_join topdir n) c)])
     @ unlink_entries p topdir es"

text \<open>
  \<open>find build/assets -depth -empty -type d -delete\<close>: children first, every directory
  that is empty when \<open>find\<close> comes to it is removed, the starting directory included.
  \<open>None\<close> says that the node itself is gone.
\<close>

fun prune :: "node \<Rightarrow> node option"
and prune_entries :: "(string \<times> node) list \<Rightarrow> (string \<times> node) list"
where
  "prune File = Some File"
| "prune (Dir es) = (let es' = prune_entries es in if es' = [] then None else Some (Dir es'))"
| "prune_entries [] = []"
| "prune_entries ((n, c) # es) =
     (case prune c of None \<Rightarrow> [] | Some c' \<Rightarrow> [(n, c')]) @ prune_entries es"

text \<open>
  In a tree of a real file system no entry has an empty name or a name with a slash.
\<close>

fun valid_tree :: "node \<Rightarrow> bool"
and valid_entries :: "(string \<times> node) list \<Rightarrow> bool"
where
  "valid_tree File = True"
| "valid_tree (Dir es) = valid_entries es"
| "valid_entries [] = True"
| "valid_entries ((n, c) # es) =
     (n \<noteq> [] \<and> CHR ''/'' \<notin> set n \<and> valid_tree c \<and> valid_entries es)"

definition find_command :: string where
  "find_command = ''find build/assets -depth -empty -type d -delete''"

text \<open>
  The two nested loops, over the paths \<open>fpath\<close> of the walk: a path that, without its
  first 13 characters, is not in the manifest gets a notice and is unlinked. An
  \<open>os.unlink\<close> that fails ends the loops. They return their effects, with the error if
  there is one, and the tree they leave.
\<close>

fun clean_loop ::
  "world \<Rightarrow> string set \<Rightarrow> string list \<Rightarrow> node option \<Rightarrow> unit outcome \<times> node option"
where
  "clean_loop w manifest [] assets = (ret (), assets)"
| "clean_loop w manifest (fpath # fpaths) assets =
     (let fpathrel = drop 13 fpath in
      if fpathrel \<notin> manifest then
        if os_error w (Unlink fpath) then
          (([Print (''Removing orphaned asset file: '' @ fpath @ nl), Unlink fpath],
            Inl OSError), assets)
        else
          (case clean_loop w manifest fpaths (map_option (unlink fpath ''build/assets'') assets) of
             ((evs, r), assets') \<Rightarrow>
               (([Print (''Removing orphaned asset file: '' @ fpath @ nl), Unlink fpath] @ evs,
                 r), assets'))
      else clean_loop w manifest fpaths assets)"

text \<open>
  The command takes the state of \<open>build/assets\<close> (\<open>None\<close>: there is no such directory) and
  returns the state it leaves. \<open>find\<close> is run with \<open>check=True\<close>: it may not start, it
  exits with status 1 when its starting point does not exist, and otherwise with the
  status the environment gives; any status but 0 is raised. What a failing \<open>find\<close> has
  removed before it fails is left open: the model keeps the tree of the loops then.
\<close>

definition clean_orphaned_assets :: "world \<Rightarrow> node option \<Rightarrow> unit outcome \<times> node option" where
  "clean_orphaned_assets w assets =
     (if batch w then (raise BatchMisuse, assets)
      else if os_error w (Chdir (projroot w)) then (([Chdir (projroot w)], Inl OSError), assets)
      else
        case json_list w ''src/assets/.asset_manifest_public.json'' of
          Inl e \<Rightarrow> (([Chdir (projroot w)], Inl e), assets)
        | Inr public \<Rightarrow>
       (case json_list w ''src/assets/.asset_manifest_private.json'' of
          Inl e \<Rightarrow> (([Chdir (projroot w)], Inl e), assets)
        | Inr private \<Rightarrow>
          let manifest = set public \<union> set private in
         (case clean_loop w manifest (walked_files ''build/assets'' assets) assets of
            ((removals, Inl e), assets1) \<Rightarrow>
              (([Chdir (projroot w)] @ removals, Inl e), assets1)
          | ((removals, Inr _), assets1) \<Rightarrow>
              (case subprocess w (RunShell find_command) of
                 None \<Rightarrow>
                   (([Chdir (projroot w)] @ removals @ [RunShell find_command], Inl OSError),
                    assets1)
               | Some found \<Rightarrow>
                   (case assets1 of
                      None \<Rightarrow>
                        (([Chdir (projroot w)] @ removals @ [RunShell find_command],
                          Inl (CalledProcessError 1)), None)
                    | Some t \<Rightarrow>
                        if returncode found \<noteq> 0 then
                          (([Chdir (projroot w)] @ removals @ [RunShell find_command],
                            Inl (CalledProcessError (returncode found))), Some t)
                        else
                          (([Chdir (projroot w)] @ removals @ [RunShell find_command], Inr ()),
                           prune t))))))"

text \<open>
  The loops in closed form, when no \<open>os.unlink\<close> fails: the effects for one path, and
  the paths that are unlinked.
\<close>

definition orphan_events :: "string set \<Rightarrow> string \<Rightarrow> event list" where
  "orphan_events manifest fpath =
     (if drop 13 fpath \<notin> manifest then
        [Print (''Removing orphaned asset file: '' @ fpath @ nl), Unlink fpath]
      else [])"

definition orphans :: "string set \<Rightarrow> string list \<Rightarrow> string list" where
  "orphans manifest fpaths = filter (\<lambda>fpath. drop 13 fpath \<notin> manifest) fpaths"

section \<open>The layout of the generated header\<close>

text \<open>
  The four parts of the header that do not depend on the module names: the dedented
  template before, between and after its three placeholders, without the line break at
  its start that \<open>strip\<close> removes.
\<close>

definition header_head :: string where
  \<open>header_head =
     ''// Released under the MIT License. See LICENSE for details.\<newline>'' @
     ''\<newline>'' @
     ''#ifndef BALLISTICA_CORE_MGEN_PYTHON_MODULES_MONOLITHIC_H_\<newline>'' @
     ''#define BALLISTICA_CORE_MGEN_PYTHON_MODULES_MONOLITHIC_H_\<newline>'' @
     ''\<newline>'' @
     ''// THIS CODE IS AUTOGENERATED BY META BUILD; DO NOT EDIT BY HAND.\<newline>'' @
     ''\<newline>'' @
     ''#include "ballistica/shared/ballistica.h"\<newline>'' @
     ''#include "ballistica/shared/python/python_sys.h"\<newline>'' @
     ''\<newline>'' @
     ''extern "C" {\<newline>''\<close>

definition header_after_externs :: string where
  \<open>header_after_externs =
     ''\<newline>'' @
     ''}\<newline>'' @
     ''\<newline>'' @
     ''namespace ballistica {\<newline>'' @
     ''\<newline>'' @
     ''/// Register init calls for all of our built-in Python modules.\<newline>'' @
     ''/// Should only be used in monolithic builds. In modular builds\<newline>'' @
     ''/// binary modules get located as .so files on disk as per regular\<newline>'' @
     ''/// Python behavior.\<newline>'' @
     ''void MonolithicRegisterPythonModules() {\<newline>'' @
     ''  if (g_buildconfig.monolithic_build()) {\<newline>''\<close>

definition header_after_registrations :: string where
  \<open>header_after_registrations =
     ''\<newline>'' @
     ''  } else {\<newline>'' @
     ''    FatalError(\<newline>'' @
     ''        "MonolithicRegisterPythonModules should not be called"\<newline>'' @
     ''        " in modular builds.");\<newline>'' @
     ''  }\<newline>'' @
     ''}\<newline>''\<close>

definition header_tail :: string where
  \<open>header_tail =
     ''\<newline>'' @
     ''}  // namespace ballistica\<newline>'' @
     ''\<newline>'' @
     ''#endif  // BALLISTICA_CORE_MGEN_PYTHON_MODULES_MONOLITHIC_H_\<newline>''\<close>

text \<open>
  The registration block as it stands in the header: every line with four blanks before
  it.
\<close>

definition indented_register_code :: "string list \<Rightarrow> string" where
  "indented_register_code names = join nl (map (\<lambda>n. ''    '' @ py_register_line n) names)"

text \<open>
  The header for a list of module names, part by part: the forward declarations, the
  registrations and the forwarding definition between the fixed parts.
\<close>

definition header_layout :: "string list \<Rightarrow> string" where
  "header_layout names =
     header_head @ extern_def_code names @ header_after_externs
       @ indented_register_code names @ header_after_registrations
       @ init_plus_code names @ header_tail"

text \<open>
  A module name as a feature set gives it has no dollar sign and no line boundary.
\<close>

definition plain_name :: "string \<Rightarrow> bool" where
  "plain_name n \<longleftrightarrow> list_all (\<lambda>c. c \<noteq> CHR ''$'' \<and> \<not> islinebreak c) n"

section \<open>Example inputs\<close>

text \<open>The three feature sets of the ordering example, all with native modules.\<close>

definition example_featuresets :: "featureset list" where
  "example_featuresets =
     [\<lparr>has_python_binary_module = True, name_python_binary_module = ''zeta''\<rparr>,
      \<lparr>has_python_binary_module = True, name_python_binary_module = ''alpha''\<rparr>,
      \<lparr>has_python_binary_module = True, name_python_binary_module = ''_baplus''\<rparr>]"

text \<open>
  An environment outside batch dispatch in which nothing exists yet, no program can be
  started and no call fails; the public asset manifest lists \<open>a/x.png\<close>.
\<close>

definition example_world :: world where
  "example_world =
     \<lparr>batch = False, argv = [''pcommand'', ''command''], projroot = ''/proj'', clr = False,
      environ = (\<lambda>_. None), getcwd = ''/proj'', sys_path = [],
      path_exists = (\<lambda>_. False), path_isdir = (\<lambda>_. False), path_islink = (\<lambda>_. False),
      getmtime = (\<lambda>_. None), abspath = (\<lambda>p. p), py_int = (\<lambda>_. None),
      json_list = (\<lambda>p. if p = ''src/assets/.asset_manifest_public.json'' then Inr [''a/x.png'']
                        else Inr []),
      subprocess = (\<lambda>_. None), os_error = (\<lambda>_. False), call_error = (\<lambda>_. None),
      featuresets = example_featuresets, prefab_platform = ''linux_x86_64'',
      project_centric_path = (\<lambda>p. p), test_runs_disabled = False,
      clr_bld = [], clr_rst = []\<rparr>"

text \<open>The example environment with an output path for the header generator.\<close>

definition header_world :: world where
  "header_world =
     example_world\<lparr>argv := [''pcommand'', ''gen_monolithic_register_modules'',
                             ''build/mgen/modules.h'']\<rparr>"

text \<open>A child process that ends with status 0 and the given output.\<close>

definition succeeded :: "string \<Rightarrow> completed" where
  "succeeded out = \<lparr>returncode = 0, stdout = out\<rparr>"

text \<open>
  The tree of the pruning example, \<open>a/x.png\<close> and \<open>b/y.png\<close>, and a tree with nothing but
  an orphan.
\<close>

definition example_assets :: node where
  "example_assets = Dir [(''a'', Dir [(''x.png'', File)]), (''b'', Dir [(''y.png'', File)])]"

definition orphan_only_assets :: node where
  "orphan_only_assets = Dir [(''y.png'', File)]"

text \<open>The example environment with \<open>find\<close> and every other program at hand.\<close>

definition cleaner_world :: world where
  "cleaner_world = example_world\<lparr>subprocess := (\<lambda>_. Some (succeeded []))\<rparr>"

text \<open>
  A build directory \<open>out\<close> whose copy of the library has modification time \<open>t\<close>, while
  the freshly built library has modification time 5; every child process succeeds.
\<close>

definition prefab_world :: "real \<Rightarrow> world" where
  "prefab_world t =
     example_world
       \<lparr>argv := [''pcommand'', ''update_cmake_prefab_lib'', ''standard'', ''debug'', ''out''],
        subprocess := (\<lambda>_. Some (succeeded [])),
        path_exists := (\<lambda>p. p = ''out/prefablib/libballisticaplus.a''),
        getmtime := (\<lambda>p. if p = ''out/prefablib/libballisticaplus.a'' then Some t else Some 5)\<rparr>"

text \<open>
  A WSL host: \<open>which wslpath\<close> succeeds, the override variable has the given value and
  \<open>wslpath\<close> prints the given translation.
\<close>

definition wsl_world :: "string option \<Rightarrow> string \<Rightarrow> world" where
  "wsl_world ignore translated =
     example_world
       \<lparr>environ := (\<lambda>name. if name = ''WSL_BUILD_CHECK_WIN_DRIVE_IGNORE'' then ignore else None),
        subprocess := (\<lambda>ev. if ev = Run [''which'', ''wslpath''] then Some (succeeded ''/usr/bin/wslpath'')
                            else Some (succeeded translated))\<rparr>"

text \<open>
  An archive run whose destination \<open>archive\<close> exists; the source \<open>libs\<close> is a directory
  or not, and has no library in it.
\<close>

definition replaced_world :: "bool \<Rightarrow> world" where
  "replaced_world source_there =
     example_world
       \<lparr>argv := [''pcommand'', ''android_archive_unstripped_libs'', ''./libs/'', ''archive/''],
        path_exists := (\<lambda>p. p = ''archive''),
        path_isdir := (\<lambda>p. source_there \<and> p = ''libs''),
        subprocess := (\<lambda>_. Some (succeeded []))\<rparr>"

section \<open>Properties of the header generator\<close>

lemma split_on_no_sep: "sep \<notin> set x \<Longrightarrow> split_on sep x = [x]"
  by (induction x) auto

lemma split_on_append_sep:
  "sep \<notin> set x \<Longrightarrow> split_on sep (x @ sep # rest) = x # split_on sep rest"
  by (induction x) auto

lemma split_on_join:
  "xs \<noteq> [] \<Longrightarrow> \<forall>x \<in> set xs. sep \<notin> set x \<Longrightarrow> split_on sep (join [sep] xs) = xs"
proof (induction "[sep]" xs rule: join.induct)
  case 1
  then show ?case by simp
next
  case (2 x)
  then show ?case by (simp add: split_on_no_sep)
next
  case (3 x y ys)
  then show ?case by (simp add: split_on_append_sep)
qed

lemma base_code_split: "split_on (CHR 0x0A) base_code = base_code_lines"
  unfolding base_code_def nl_def
  by (rule split_on_join) (simp_all add: base_code_lines_def)

lemma dedent_base_code:
  "dedent base_code
     = nl @ header_head @ ''${EXTERN_DEF_CODE}'' @ header_after_externs
       @ ''${PY_REGISTER_CODE}'' @ header_after_registrations
       @ ''${PY_INIT_PLUS}'' @ header_tail"
  unfolding dedent_def base_code_split
  by (simp add: base_code_lines_def isblank_def nl_def header_head_def
      header_after_externs_def header_after_registrations_def header_tail_def)

lemma replace_Nil: "replace (c # r) new [] = []"
  by (subst replace.simps) simp

lemma replace_skip: "c \<notin> set a \<Longrightarrow> replace (c # r) new (a @ s) = a @ replace (c # r) new s"
proof (induction a)
  case Nil
  then show ?case by simp
next
  case (Cons x a)
  then have "replace (c # r) new (x # a @ s) = x # replace (c # r) new (a @ s)"
    by (subst replace.simps) simp
  with Cons show ?case by simp
qed

lemma replace_here: "replace (c # r) new (c # r @ s) = new @ replace (c # r) new s"
proof -
  have "replace (c # r) new ((c # r) @ s) = new @ replace (c # r) new s"
    by (subst replace.simps) simp
  then show ?thesis by simp
qed

lemma replace_other:
  assumes "c \<notin> set p" and "\<not> prefix (c # e) (c # p)" and "\<not> prefix (c # p) (c # e)"
  shows "replace (c # e) new (c # p @ s) = c # p @ replace (c # e) new s"
proof -
  have "\<not> prefix (c # e) (c # p @ s)"
    using assms(2,3) by (auto simp: prefix_def append_eq_append_conv2)
  then have "replace (c # e) new (c # p @ s) = c # replace (c # e) new (p @ s)"
    by (subst replace.simps) simp
  then show ?thesis
    using assms(1) by (simp add: replace_skip)
qed

lemma replace_three:
  assumes t: "c \<notin> set t0" "c \<notin> set t1" "c \<notin> set t2" "c \<notin> set t3"
    and v: "c \<notin> set x" "c \<notin> set y" "c \<notin> set z"
    and h: "c \<notin> set e" "c \<notin> set p" "c \<notin> set i"
    and d: "\<not> prefix (c # e) (c # p)" "\<not> prefix (c # p) (c # e)"
           "\<not> prefix (c # e) (c # i)" "\<not> prefix (c # i) (c # e)"
           "\<not> prefix (c # p) (c # i)" "\<not> prefix (c # i) (c # p)"
  shows "replace (c # i) z (replace (c # p) y (replace (c # e) x
           (t0 @ (c # e) @ t1 @ (c # p) @ t2 @ (c # i) @ t3)))
         = t0 @ x @ t1 @ y @ t2 @ z @ t3"
proof -
  have last: "replace (c # r) new t3 = t3" for r new
    using replace_skip [OF t(4), of r new "[]"] by (simp add: replace_Nil)
  have first: "replace (c # e) x (t0 @ (c # e) @ t1 @ (c # p) @ t2 @ (c # i) @ t3)
          = t0 @ x @ t1 @ (c # p) @ t2 @ (c # i) @ t3"
    using t h d by (simp add: replace_skip replace_here replace_other last)
  have second: "replace (c # p) y (t0 @ x @ t1 @ (c # p) @ t2 @ (c # i) @ t3)
          = t0 @ x @ t1 @ y @ t2 @ (c # i) @ t3"
    using t v h d by (simp add: replace_skip replace_here replace_other last)
  have third: "replace (c # i) z (t0 @ x @ t1 @ y @ t2 @ (c # i) @ t3)
          = t0 @ x @ t1 @ y @ t2 @ z @ t3"
    using t v h d by (simp add: replace_skip replace_here replace_other last)
  show ?thesis
    unfolding first second third ..
qed

lemma strip_nonempty: "strip s \<noteq> [] \<longleftrightarrow> (\<exists>c \<in> set s. \<not> isspace c)"
proof -
  have "dropWhile isspace xs \<noteq> [] \<longleftrightarrow> (\<exists>c \<in> set xs. \<not> isspace c)" for xs
    by (simp add: dropWhile_eq_Nil_conv)
  moreover have "(\<exists>c \<in> set (dropWhile isspace xs). \<not> isspace c) \<longleftrightarrow> (\<exists>c \<in> set xs. \<not> isspace c)"
    for xs
    by (induction xs) auto
  ultimately show ?thesis
    by (simp add: strip_def lstrip_def rstrip_def)
qed

lemma strip_framed:
  assumes "a \<noteq> []" and "\<not> isspace (hd a)" and "t \<noteq> []" and "\<not> isspace (last t)"
  shows "strip (nl @ a @ s @ t @ nl) = a @ s @ t"
proof -
  have sp: "isspace (CHR 0x0A)"
    by (simp add: isspace_def)
  have "lstrip (nl @ a @ s @ t @ nl) = a @ s @ t @ nl"
    using assms(1,2) sp by (cases a) (simp_all add: lstrip_def nl_def)
  moreover have "rstrip (a @ s @ t @ nl) = a @ s @ t"
  proof -
    have "rev (a @ s @ t @ nl) = CHR 0x0A # last t # rev (butlast t) @ rev s @ rev a"
      using assms(3) by (cases t rule: rev_cases) (simp_all add: nl_def)
    then have "dropWhile isspace (rev (a @ s @ t @ nl)) = last t # rev (butlast t) @ rev s @ rev a"
      using sp assms(4) by simp
    then have "rstrip (a @ s @ t @ nl) = a @ s @ butlast t @ [last t]"
      by (simp add: rstrip_def)
    then show ?thesis
      using assms(3) by simp
  qed
  ultimately show ?thesis
    by (simp add: strip_def)
qed

lemma splitlines_from_line:
  "\<forall>c \<in> set l. \<not> islinebreak c \<Longrightarrow>
     splitlines_from cur (l @ CHR 0x0A # rest) = (cur @ l @ [CHR 0x0A]) # splitlines_from [] rest"
proof (induction l arbitrary: cur)
  case Nil
  have "islinebreak (CHR 0x0A)"
    by (simp add: islinebreak_def)
  then show ?case
    by (cases rest) simp_all
next
  case (Cons x l)
  then have x: "\<not> islinebreak x" and l: "\<forall>c \<in> set l. \<not> islinebreak c"
    by simp_all
  have "islinebreak (CHR 0x0D)"
    by (simp add: islinebreak_def)
  with x have cr: "x \<noteq> CHR 0x0D"
    by auto
  obtain d cs where dcs: "l @ CHR 0x0A # rest = d # cs"
    by (cases "l @ CHR 0x0A # rest") auto
  have "splitlines_from cur (x # d # cs) = splitlines_from (cur @ [x]) (d # cs)"
    using x cr by simp
  then show ?case
    using Cons.IH [OF l, of "cur @ [x]"] dcs by simp
qed

lemma splitlines_from_last:
  "\<forall>c \<in> set l. \<not> islinebreak c \<Longrightarrow> l \<noteq> [] \<Longrightarrow> splitlines_from cur l = [cur @ l]"
proof (induction l arbitrary: cur)
  case Nil
  then show ?case by simp
next
  case (Cons x l)
  show ?case
  proof (cases l)
    case Nil
    then show ?thesis by simp
  next
    case (Cons d cs)
    have "islinebreak (CHR 0x0D)"
      by (simp add: islinebreak_def)
    with Cons.prems have "x \<noteq> CHR 0x0D" "\<not> islinebreak x"
      by auto
    then have "splitlines_from cur (x # d # cs) = splitlines_from (cur @ [x]) (d # cs)"
      by simp
    with Cons.IH [of "cur @ [x]"] Cons.prems Cons show ?thesis
      by simp
  qed
qed

lemma indent_join:
  assumes "\<forall>l \<in> set ls. (\<forall>c \<in> set l. \<not> islinebreak c) \<and> (\<exists>c \<in> set l. \<not> isspace c)"
  shows "indent (join nl ls) pre = join nl (map (\<lambda>l. pre @ l) ls)"
  using assms
proof (induction nl ls rule: join.induct)
  case 1
  then show ?case
    by (simp add: indent_def splitlines_keepends_def)
next
  case (2 x)
  then have "x \<noteq> []" by auto
  with 2 show ?case
    by (simp add: indent_def splitlines_keepends_def splitlines_from_last strip_nonempty)
next
  case (3 x y ys)
  have "splitlines_from [] (x @ CHR 0x0A # join nl (y # ys))
          = (x @ [CHR 0x0A]) # splitlines_from [] (join nl (y # ys))"
    using splitlines_from_line [of x "[]"] 3(2) by simp
  moreover have "strip (x @ [CHR 0x0A]) \<noteq> []"
    using 3(2) by (auto simp: strip_nonempty)
  moreover have "indent (join nl (y # ys)) pre = join nl (map (\<lambda>l. pre @ l) (y # ys))"
    using 3 by simp
  ultimately show ?case
    by (simp add: indent_def splitlines_keepends_def nl_def)
qed

lemma set_join: "set (join sep xs) \<subseteq> set sep \<union> \<Union> (set ` set xs)"
  by (induction sep xs rule: join.induct) auto

lemma plain_nameD:
  assumes "plain_name n"
  shows "CHR ''$'' \<notin> set n" and "\<forall>c \<in> set n. \<not> islinebreak c"
  using assms by (auto simp: plain_name_def list_all_iff)

lemma initname_chars: "set (initname n) \<subseteq> set ''DoPyInit_'' \<union> set n"
  by (auto simp: initname_def)

lemma extern_def_line_plain:
  assumes "plain_name n"
  shows "CHR ''$'' \<notin> set (extern_def_line n)"
  using plain_nameD(1) [OF assms] initname_chars [of n]
  by (auto simp: extern_def_line_def)

lemma py_register_line_plain:
  assumes "plain_name n"
  shows "CHR ''$'' \<notin> set (py_register_line n)"
    and "\<forall>c \<in> set (py_register_line n). \<not> islinebreak c"
    and "\<exists>c \<in> set (py_register_line n). \<not> isspace c"
proof -
  show "CHR ''$'' \<notin> set (py_register_line n)"
    using plain_nameD(1) [OF assms] initname_chars [of n]
    by (auto simp: py_register_line_def)
  have "\<forall>c \<in> set ''DoPyInit_''. \<not> islinebreak c"
    by (simp add: islinebreak_def)
  then have "\<forall>c \<in> set (initname n). \<not> islinebreak c"
    using plain_nameD(2) [OF assms] initname_chars [of n] by blast
  then show "\<forall>c \<in> set (py_register_line n). \<not> islinebreak c"
    using plain_nameD(2) [OF assms]
    by (auto simp: py_register_line_def islinebreak_def)
  have "CHR ''P'' \<in> set (py_register_line n)" "\<not> isspace (CHR ''P'')"
    by (simp_all add: py_register_line_def isspace_def)
  then show "\<exists>c \<in> set (py_register_line n). \<not> isspace c"
    by blast
qed

lemma indent_py_register_code:
  assumes "\<forall>n \<in> set names. plain_name n"
  shows "indent (py_register_code names) ''    '' = indented_register_code names"
proof -
  have "indent (join nl (map py_register_line names)) ''    ''
          = join nl (map (\<lambda>l. ''    '' @ l) (map py_register_line names))"
    by (rule indent_join) (use assms py_register_line_plain(2,3) in auto)
  then show ?thesis
    by (simp add: py_register_code_def indented_register_code_def comp_def)
qed

lemma join_without:
  "c \<notin> set sep \<Longrightarrow> \<forall>x \<in> set xs. c \<notin> set x \<Longrightarrow> c \<notin> set (join sep xs)"
  by (induction sep xs rule: join.induct) auto

lemma blocks_without_dollar:
  assumes "\<forall>n \<in> set names. plain_name n"
  shows "CHR ''$'' \<notin> set (extern_def_code names)"
    and "CHR ''$'' \<notin> set (indented_register_code names)"
    and "CHR ''$'' \<notin> set (init_plus_code names)"
proof -
  show "CHR ''$'' \<notin> set (extern_def_code names)"
    unfolding extern_def_code_def
    by (rule join_without) (use assms extern_def_line_plain in \<open>auto simp: nl_def\<close>)
  show "CHR ''$'' \<notin> set (indented_register_code names)"
    unfolding indented_register_code_def
    by (rule join_without) (use assms py_register_line_plain(1) in \<open>auto simp: nl_def\<close>)
  show "CHR ''$'' \<notin> set (init_plus_code names)"
    by (simp add: init_plus_code_def plus_forwarding_code_def)
qed

lemma fixed_parts_without_dollar:
  "CHR ''$'' \<notin> set (nl @ header_head)"
  "CHR ''$'' \<notin> set header_after_externs"
  "CHR ''$'' \<notin> set header_after_registrations"
  "CHR ''$'' \<notin> set header_tail"
  by (simp_all add: nl_def header_head_def header_after_externs_def
      header_after_registrations_def header_tail_def)

lemma header_ends:
  "header_head \<noteq> []" "\<not> isspace (hd header_head)"
  "butlast header_tail \<noteq> []" "\<not> isspace (last (butlast header_tail))"
  "butlast header_tail @ nl = header_tail"
  by (simp_all add: header_head_def header_tail_def isspace_def nl_def)

lemma monolithic_header_layout:
  assumes "\<forall>n \<in> set names. plain_name n"
  shows "monolithic_header names = header_layout names"
proof -
  let ?x = "extern_def_code names"
  let ?y = "indented_register_code names"
  let ?z = "init_plus_code names"
  have "replace ''${PY_INIT_PLUS}'' ?z
          (replace ''${PY_REGISTER_CODE}'' ?y
            (replace ''${EXTERN_DEF_CODE}'' ?x (dedent base_code)))
        = (nl @ header_head) @ ?x @ header_after_externs @ ?y
            @ header_after_registrations @ ?z @ header_tail"
    unfolding dedent_base_code
    using replace_three
      [OF fixed_parts_without_dollar blocks_without_dollar [OF assms],
       of "''{EXTERN_DEF_CODE}''" "''{PY_REGISTER_CODE}''" "''{PY_INIT_PLUS}''"]
    by simp
  also have "\<dots> = nl @ header_head
                    @ (?x @ header_after_externs @ ?y @ header_after_registrations @ ?z)
                    @ butlast header_tail @ nl"
    by (simp add: header_ends(5))
  finally have "monolithic_header names
                  = strip (nl @ header_head
                      @ (?x @ header_after_externs @ ?y @ header_after_registrations @ ?z)
                      @ butlast header_tail @ nl) @ nl"
    by (simp add: monolithic_header_def indent_py_register_code [OF assms])
  also have "\<dots> = (header_head
                      @ (?x @ header_after_externs @ ?y @ header_after_registrations @ ?z)
                      @ butlast header_tail) @ nl"
    by (simp only: strip_framed [OF header_ends(1-4)])
  also have "\<dots> = header_layout names"
    using header_ends(5) by (simp add: header_layout_def)
  finally show ?thesis .
qed

lemma initname_no_newline: "CHR 0x0A \<notin> set n \<Longrightarrow> CHR 0x0A \<notin> set (initname n)"
  by (simp add: initname_def)

lemma extern_def_line_no_newline:
  "CHR 0x0A \<notin> set n \<Longrightarrow> CHR 0x0A \<notin> set (extern_def_line n)"
  by (simp add: extern_def_line_def initname_no_newline)

lemma py_register_line_no_newline:
  "CHR 0x0A \<notin> set n \<Longrightarrow> CHR 0x0A \<notin> set (py_register_line n)"
  by (simp add: py_register_line_def initname_no_newline)

lemma lines_of_extern_def_code:
  assumes "names \<noteq> []" and "\<forall>n \<in> set names. CHR 0x0A \<notin> set n"
  shows "split_on (CHR 0x0A) (extern_def_code names) = map extern_def_line names"
  unfolding extern_def_code_def nl_def
  using assms by (intro split_on_join) (auto simp: extern_def_line_no_newline)

lemma lines_of_py_register_code:
  assumes "names \<noteq> []" and "\<forall>n \<in> set names. CHR 0x0A \<notin> set n"
  shows "split_on (CHR 0x0A) (py_register_code names) = map py_register_line names"
  unfolding py_register_code_def nl_def
  using assms by (intro split_on_join) (auto simp: py_register_line_no_newline)

lemma plain_name_no_newline: "plain_name n \<Longrightarrow> CHR 0x0A \<notin> set n"
  using plain_nameD(2) [of n] by (auto simp: islinebreak_def)

lemma generated_header:
  assumes "\<not> batch w" and "length (argv w) = 3"
    and "\<not> os_error w (Makedirs (dirname (argv w ! 2)))"
    and "\<forall>n \<in> set (pymodulenames (featuresets w)). plain_name n"
  shows "fst (gen_monolithic_register_modules w)
           = [Makedirs (dirname (argv w ! 2)),
              WriteFile (argv w ! 2) (header_layout (pymodulenames (featuresets w)))]"
  using assms(1-3) monolithic_header_layout [OF assms(4)]
  by (simp add: gen_monolithic_register_modules_def and_then_def perform_def ret_def
      disallow_in_batch_def Let_def split: prod.splits)

text \<open>
  C1 (amended). Outside batch dispatch, with one argument and the output directory at
  hand, \<open>gen_monolithic_register_modules\<close> writes one file, whose text is the fixed parts
  of the template with, between them, the forward-declaration block, the registration
  block and the forwarding definition. Both blocks have one line for each module name, in
  the same order: the names of the feature sets with native modules in sorted order,
  which is the order of character codes. This holds for module names without a dollar
  sign or a line boundary.
\<close>

theorem module_names_sorted_in_both_blocks:
  assumes "\<not> batch w" and "length (argv w) = 3"
    and "\<not> os_error w (Makedirs (dirname (argv w ! 2)))"
    and "names = pymodulenames (featuresets w)"
    and "\<forall>n \<in> set names. plain_name n"
  shows "fst (gen_monolithic_register_modules w)
           = [Makedirs (dirname (argv w ! 2)),
              WriteFile (argv w ! 2)
                (header_head
                 @ join nl (map extern_def_line names)
                 @ header_after_externs
                 @ join nl (map (\<lambda>n. ''    '' @ py_register_line n) names)
                 @ header_after_registrations
                 @ init_plus_code names
                 @ header_tail)]
         \<and> sorted names
         \<and> set names
             = name_python_binary_module ` {f \<in> set (featuresets w). has_python_binary_module f}
         \<and> length names = length (filter has_python_binary_module (featuresets w))
         \<and> (names \<noteq> [] \<longrightarrow>
              split_on (CHR 0x0A) (extern_def_code names) = map extern_def_line names
              \<and> split_on (CHR 0x0A) (py_register_code names) = map py_register_line names)"
proof -
  have "fst (gen_monolithic_register_modules w)
           = [Makedirs (dirname (argv w ! 2)), WriteFile (argv w ! 2) (header_layout names)]"
    using generated_header [OF assms(1-3)] assms(4,5) by simp
  moreover have "sorted names"
    by (simp add: assms(4) pymodulenames_def)
  moreover have "set names
       = name_python_binary_module ` {f \<in> set (featuresets w). has_python_binary_module f}"
    by (auto simp: assms(4) pymodulenames_def)
  moreover have "length names = length (filter has_python_binary_module (featuresets w))"
    by (simp add: assms(4) pymodulenames_def)
  moreover have "names \<noteq> [] \<longrightarrow>
              split_on (CHR 0x0A) (extern_def_code names) = map extern_def_line names
              \<and> split_on (CHR 0x0A) (py_register_code names) = map py_register_line names"
    using lines_of_extern_def_code lines_of_py_register_code assms(5) plain_name_no_newline
    by blast
  ultimately show ?thesis
    by (simp add: header_layout_def extern_def_code_def indented_register_code_def)
qed

lemma example_names: "pymodulenames example_featuresets = [''_baplus'', ''alpha'', ''zeta'']"
  by (simp add: pymodulenames_def example_featuresets_def)

lemma header_world_fields:
  "\<not> batch header_world"
  "argv header_world = [''pcommand'', ''gen_monolithic_register_modules'', ''build/mgen/modules.h'']"
  "\<not> os_error header_world ev"
  "pymodulenames (featuresets header_world) = [''_baplus'', ''alpha'', ''zeta'']"
  "dirname ''build/mgen/modules.h'' = ''build/mgen''"
  "plain_name ''_baplus''" "plain_name ''alpha''" "plain_name ''zeta''"
  by (simp_all add: header_world_def example_world_def example_names dirname_def plain_name_def
      islinebreak_def)

text \<open>
  For the feature sets \<open>zeta\<close>, \<open>alpha\<close> and \<open>_baplus\<close> both blocks of the written header
  list \<open>_baplus\<close>, \<open>alpha\<close>, \<open>zeta\<close>: the underscore sorts before the lower-case letters.
\<close>

theorem module_names_sorted_in_both_blocks_witness:
  \<open>fst (gen_monolithic_register_modules header_world)
     = [Makedirs ''build/mgen'',
        WriteFile ''build/mgen/modules.h''
          (header_head
           @ (''auto DoPyInit__baplus() -> PyObject*;\<newline>'' @
              ''auto PyInit_alpha() -> PyObject*;\<newline>'' @
              ''auto PyInit_zeta() -> PyObject*;'')
           @ header_after_externs
           @ (''    PyImport_AppendInittab("_baplus", &DoPyInit__baplus);\<newline>'' @
              ''    PyImport_AppendInittab("alpha", &PyInit_alpha);\<newline>'' @
              ''    PyImport_AppendInittab("zeta", &PyInit_zeta);'')
           @ header_after_registrations
           @ plus_forwarding_code
           @ header_tail)]\<close>
proof -
  have h: "\<not> batch header_world" "length (argv header_world) = 3"
    "\<not> os_error header_world (Makedirs (dirname (argv header_world ! 2)))"
    "[''_baplus'', ''alpha'', ''zeta''] = pymodulenames (featuresets header_world)"
    "\<forall>n \<in> set [''_baplus'', ''alpha'', ''zeta'']. plain_name n"
    by (simp_all add: header_world_fields)
  show ?thesis
    using module_names_sorted_in_both_blocks [OF h]
    by (simp add: header_world_fields extern_def_line_def py_register_line_def initname_def
        init_plus_code_def nl_def)
qed

text \<open>
  C1 as stated fails on its own example: the header is not the one that lists \<open>alpha\<close>,
  \<open>zeta\<close>, \<open>_baplus\<close>, and neither block has its lines in that order.
\<close>

theorem example_order_counterexample:
  "pymodulenames example_featuresets = [''_baplus'', ''alpha'', ''zeta'']
   \<and> monolithic_header (pymodulenames example_featuresets)
       \<noteq> header_layout [''alpha'', ''zeta'', ''_baplus'']
   \<and> split_on (CHR 0x0A) (extern_def_code (pymodulenames example_featuresets))
       \<noteq> map extern_def_line [''alpha'', ''zeta'', ''_baplus'']
   \<and> split_on (CHR 0x0A) (py_register_code (pymodulenames example_featuresets))
       \<noteq> map py_register_line [''alpha'', ''zeta'', ''_baplus'']"
proof -
  have "monolithic_header [''_baplus'', ''alpha'', ''zeta'']
          = header_layout [''_baplus'', ''alpha'', ''zeta'']"
    by (rule monolithic_header_layout) (simp add: header_world_fields)
  moreover have "header_layout [''_baplus'', ''alpha'', ''zeta'']
                   \<noteq> header_layout [''alpha'', ''zeta'', ''_baplus'']"
    by (simp add: header_layout_def extern_def_code_def extern_def_line_def initname_def)
  ultimately show ?thesis
    by (simp add: example_names extern_def_code_def py_register_code_def nl_def
        extern_def_line_def py_register_line_def initname_def)
qed

text \<open>
  C4. In the header that \<open>gen_monolithic_register_modules\<close> writes, the line of a module
  name \<open>n\<close> in either block names the init function \<open>PyInit_n\<close>, except that \<open>_baplus\<close> has
  \<open>DoPyInit__baplus\<close>; the forwarding definition of \<open>PyInit__baplus\<close>, which calls
  \<open>DoPyInit__baplus\<close>, follows the registration function exactly when \<open>_baplus\<close> is among
  the kept module names, and nothing stands in its place otherwise. The module names are
  taken without a dollar sign or a line boundary.
\<close>

theorem init_names_and_plus_forwarding:
  assumes "\<not> batch w" and "length (argv w) = 3"
    and "\<not> os_error w (Makedirs (dirname (argv w ! 2)))"
    and "names = pymodulenames (featuresets w)"
    and "\<forall>n \<in> set names. plain_name n"
  shows
   \<open>fst (gen_monolithic_register_modules w)
      = [Makedirs (dirname (argv w ! 2)),
         WriteFile (argv w ! 2)
           (header_head
            @ join nl (map (\<lambda>n. ''auto '' @ initname n @ ''() -> PyObject*;'') names)
            @ header_after_externs
            @ join nl (map (\<lambda>n. ''    PyImport_AppendInittab("'' @ n @ ''", &'' @ initname n
                                  @ '');'') names)
            @ header_after_registrations
            @ (if ''_baplus'' \<in> set names then plus_forwarding_code else [])
            @ header_tail)]
    \<and> (\<forall>n. n \<noteq> ''_baplus'' \<longrightarrow> initname n = ''PyInit_'' @ n)
    \<and> initname ''_baplus'' = ''DoPyInit__baplus''
    \<and> (''_baplus'' \<in> set names \<longleftrightarrow>
         (\<exists>f \<in> set (featuresets w).
            has_python_binary_module f \<and> name_python_binary_module f = ''_baplus''))
    \<and> (init_plus_code names = plus_forwarding_code \<longleftrightarrow> ''_baplus'' \<in> set names)
    \<and> (init_plus_code names = [] \<longleftrightarrow> ''_baplus'' \<notin> set names)
    \<and> contains plus_forwarding_code
         (''extern "C" auto PyInit__baplus() -> PyObject* {\<newline>'' @
          ''  return DoPyInit__baplus();\<newline>'' @
          ''}\<newline>'')\<close>
proof -
  have a: "plus_forwarding_code \<noteq> []"
    by (simp add: plus_forwarding_code_def)
  have b: \<open>contains plus_forwarding_code
        (''extern "C" auto PyInit__baplus() -> PyObject* {\<newline>'' @
         ''  return DoPyInit__baplus();\<newline>'' @
         ''}\<newline>'')\<close>
    by (simp add: plus_forwarding_code_def)
  have c: "''_baplus'' \<in> set names \<longleftrightarrow>
        (\<exists>f \<in> set (featuresets w).
           has_python_binary_module f \<and> name_python_binary_module f = ''_baplus'')"
    by (force simp: assms(4) pymodulenames_def)
  have d: "fst (gen_monolithic_register_modules w)
           = [Makedirs (dirname (argv w ! 2)), WriteFile (argv w ! 2) (header_layout names)]"
    using generated_header [OF assms(1-3)] assms(4,5) by simp
  have e: "header_layout names
             = header_head
            @ join nl (map (\<lambda>n. ''auto '' @ initname n @ ''() -> PyObject*;'') names)
            @ header_after_externs
            @ join nl (map (\<lambda>n. ''    PyImport_AppendInittab(\"'' @ n @ ''\", &'' @ initname n
                                  @ '');'') names)
            @ header_after_registrations
            @ (if ''_baplus'' \<in> set names then plus_forwarding_code else [])
            @ header_tail"
    by (simp add: header_layout_def extern_def_code_def indented_register_code_def
        extern_def_line_def [abs_def] py_register_line_def init_plus_code_def)
  show ?thesis
    unfolding d e using a b c by (auto simp: initname_def init_plus_code_def)
qed

lemma plain_example_names: "plain_name ''_baplus''" "plain_name ''alpha''" "plain_name ''zeta''"
  by (simp_all add: plain_name_def islinebreak_def)

text \<open>
  The header for \<open>zeta\<close>, \<open>alpha\<close> and \<open>_baplus\<close> has the forwarding definition; the one
  for \<open>zeta\<close> and \<open>alpha\<close> alone has none.
\<close>

theorem init_names_and_plus_forwarding_witness:
  \<open>fst (gen_monolithic_register_modules header_world)
     = [Makedirs ''build/mgen'',
        WriteFile ''build/mgen/modules.h''
          (header_head
           @ (''auto DoPyInit__baplus() -> PyObject*;\<newline>'' @
              ''auto PyInit_alpha() -> PyObject*;\<newline>'' @
              ''auto PyInit_zeta() -> PyObject*;'')
           @ header_after_externs
           @ (''    PyImport_AppendInittab("_baplus", &DoPyInit__baplus);\<newline>'' @
              ''    PyImport_AppendInittab("alpha", &PyInit_alpha);\<newline>'' @
              ''    PyImport_AppendInittab("zeta", &PyInit_zeta);'')
           @ header_after_registrations
           @ plus_forwarding_code
           @ header_tail)]
   \<and> fst (gen_monolithic_register_modules
            (header_world\<lparr>featuresets := butlast example_featuresets\<rparr>))
     = [Makedirs ''build/mgen'',
        WriteFile ''build/mgen/modules.h''
          (header_head
           @ (''auto PyInit_alpha() -> PyObject*;\<newline>'' @
              ''auto PyInit_zeta() -> PyObject*;'')
           @ header_after_externs
           @ (''    PyImport_AppendInittab("alpha", &PyInit_alpha);\<newline>'' @
              ''    PyImport_AppendInittab("zeta", &PyInit_zeta);'')
           @ header_after_registrations
           @ header_tail)]\<close>
proof -
  let ?w = "header_world\<lparr>featuresets := butlast example_featuresets\<rparr>"
  have h: "\<not> batch header_world" "length (argv header_world) = 3"
    "\<not> os_error header_world (Makedirs (dirname (argv header_world ! 2)))"
    "[''_baplus'', ''alpha'', ''zeta''] = pymodulenames (featuresets header_world)"
    "\<forall>n \<in> set [''_baplus'', ''alpha'', ''zeta'']. plain_name n"
    by (simp_all add: header_world_fields)
  have g: "\<not> batch ?w" "length (argv ?w) = 3"
    "\<not> os_error ?w (Makedirs (dirname (argv ?w ! 2)))"
    "[''alpha'', ''zeta''] = pymodulenames (featuresets ?w)"
    "\<forall>n \<in> set [''alpha'', ''zeta'']. plain_name n"
    by (simp_all add: header_world_def example_world_def example_featuresets_def
        pymodulenames_def plain_example_names)
  have a: "argv ?w = argv header_world"
    by simp
  show ?thesis
    using init_names_and_plus_forwarding [OF h] init_names_and_plus_forwarding [OF g]
    by (simp add: header_world_fields a initname_def nl_def)
qed

section \<open>The batch guard\<close>

lemmas outcome_defs =
  ret_def raise_def and_then_def emit_def perform_def call_def run_def run_event_def
  disallow_in_batch_def

lemma batch_guard_of_the_other_commands:
  assumes "batch w"
  shows "gen_monolithic_register_modules w = ([], Inl BatchMisuse)"
    and "py_examine w = ([], Inl BatchMisuse)"
    and "clean_orphaned_assets w assets = (([], Inl BatchMisuse), assets)"
    and "win_ci_install_prereqs w = ([], Inl BatchMisuse)"
    and "win_ci_binary_build w = ([], Inl BatchMisuse)"
    and "update_cmake_prefab_lib w = ([], Inl BatchMisuse)"
    and "android_archive_unstripped_libs w = ([], Inl BatchMisuse)"
    and "spinoff_check_submodule_parent w = ([], Inl BatchMisuse)"
    and "gen_python_init_module w = ([], Inl BatchMisuse)"
    and "tests_warm_start w = ([], Inl BatchMisuse)"
    and "wsl_build_check_win_drive w = ([], Inl BatchMisuse)"
    and "wsl_path_to_win w = ([], Inl BatchMisuse)"
  using assms
  by (simp_all add: outcome_defs gen_monolithic_register_modules_def py_examine_def
      clean_orphaned_assets_def win_ci_install_prereqs_def win_ci_binary_build_def
      update_cmake_prefab_lib_def android_archive_unstripped_libs_def
      spinoff_check_submodule_parent_def gen_python_init_module_def tests_warm_start_def
      wsl_build_check_win_drive_def wsl_path_to_win_def)

text \<open>
  C2. Every command but one begins with the batch guard, as the lemma above shows. The
  delegation \<open>spinoff_test\<close> has no guard: under batch dispatch, with the argument
  \<open>create\<close>, it calls the test entry point of the spinoff subsystem and returns normally
  instead of raising the misuse error.
\<close>

theorem spinoff_test_runs_under_batch:
  "spinoff_test (example_world\<lparr>batch := True, argv := [''pcommand'', ''spinoff_test'', ''create'']\<rparr>)
     = ([SpinoffTest [''create'']], Inr ())"
  by (simp add: spinoff_test_def call_def example_world_def)

section \<open>Argument validation\<close>

lemma wsl_parse_args_error:
  "wsl_parse_args args create escape wsl_path = Inl e \<Longrightarrow>
     e = CleanError ''More than one path provided.''"
  by (induction args create escape wsl_path rule: wsl_parse_args.induct)
     (auto split: if_splits option.splits)

lemma wsl_path_to_win_rejected_arguments:
  assumes "\<not> batch w"
    and "length (argv w) < 3
         \<or> wsl_parse_args (drop 2 (argv w)) False False None
             = Inl (CleanError ''More than one path provided.'')
         \<or> (\<exists>create escape. wsl_parse_args (drop 2 (argv w)) False False None
                               = Inr (create, escape, None))"
  shows "wsl_path_to_win w
           = ([LogException ''wsl_to_escaped_win_path failed.'', Print wsl_sentinel], Inr ())"
  using assms
  by (auto simp: wsl_path_to_win_def wsl_path_to_win_guarded_def outcome_defs)

lemma argv_not_read:
  "disallow_in_batch (w\<lparr>argv := a\<rparr>) = disallow_in_batch w"
  "call (w\<lparr>argv := a\<rparr>) = call w"
  "run (w\<lparr>argv := a\<rparr>) = run w"
  by (simp_all add: disallow_in_batch_def call_def run_def run_event_def fun_eq_iff)

lemma clean_loop_ignores_argv:
  "clean_loop (w\<lparr>argv := a\<rparr>) manifest fpaths assets = clean_loop w manifest fpaths assets"
  by (induction fpaths arbitrary: assets) (simp_all add: Let_def)

lemma commands_without_arguments_ignore_argv:
  "win_ci_install_prereqs (w\<lparr>argv := a\<rparr>) = win_ci_install_prereqs w"
  "win_ci_binary_build (w\<lparr>argv := a\<rparr>) = win_ci_binary_build w"
  "spinoff_check_submodule_parent (w\<lparr>argv := a\<rparr>) = spinoff_check_submodule_parent w"
  "tests_warm_start (w\<lparr>argv := a\<rparr>) = tests_warm_start w"
  "wsl_build_check_win_drive (w\<lparr>argv := a\<rparr>) = wsl_build_check_win_drive w"
  "clean_orphaned_assets (w\<lparr>argv := a\<rparr>) assets = clean_orphaned_assets w assets"
  by (simp_all add: argv_not_read clean_loop_ignores_argv win_ci_install_prereqs_def
      win_ci_binary_build_def spinoff_check_submodule_parent_def tests_warm_start_def
      wsl_build_check_win_drive_def clean_orphaned_assets_def
      cong: option.case_cong sum.case_cong if_cong)

text \<open>
  C3 (amended). Outside batch dispatch, a command that checks its argument count does so
  before any side effect. With a wrong count \<open>gen_monolithic_register_modules\<close>,
  \<open>gen_python_init_module\<close>, \<open>update_cmake_prefab_lib\<close> and
  \<open>android_archive_unstripped_libs\<close> raise a clean error and have done nothing;
  \<open>py_examine\<close> prints its error line and exits with status 255, having done nothing else;
  \<open>wsl_path_to_win\<close>, given no path or more than one, logs the error, prints the sentinel
  and returns normally, with no side effect. The commands that take no argument do not
  read the argument vector, and \<open>spinoff_test\<close> forwards whatever follows the command
  name.
\<close>

theorem argument_count_checked_before_side_effects:
  assumes "\<not> batch w"
  shows
   "(length (argv w) \<noteq> 3 \<longrightarrow>
       gen_monolithic_register_modules w = ([], Inl (CleanError ''Expected 1 arg.''))
       \<and> gen_python_init_module w = ([], Inl (CleanError ''Expected an outfile arg.'')))
    \<and> (length (argv w) \<noteq> 5 \<longrightarrow>
       update_cmake_prefab_lib w
         = ([], Inl (CleanError ''Expected 3 args (standard/server, debug/release, build-dir)'')))
    \<and> (length (argv w) \<noteq> 4 \<longrightarrow>
       android_archive_unstripped_libs w
         = ([], Inl (CleanError ''Expected 2 args; src-dir and dst-dir'')))
    \<and> (length (argv w) \<noteq> 7 \<longrightarrow>
       py_examine w = ([Print (''ERROR: expected 7 args'' @ nl)], Inl (SystemExit 255)))
    \<and> (length (argv w) < 3
        \<or> wsl_parse_args (drop 2 (argv w)) False False None
             = Inl (CleanError ''More than one path provided.'')
        \<or> (\<exists>create escape. wsl_parse_args (drop 2 (argv w)) False False None
                               = Inr (create, escape, None)) \<longrightarrow>
       wsl_path_to_win w
         = ([LogException ''wsl_to_escaped_win_path failed.'', Print wsl_sentinel], Inr ())
       \<and> \<not> list_ex side_effect (fst (wsl_path_to_win w)))
    \<and> win_ci_install_prereqs (w\<lparr>argv := a\<rparr>) = win_ci_install_prereqs w
    \<and> win_ci_binary_build (w\<lparr>argv := a\<rparr>) = win_ci_binary_build w
    \<and> spinoff_check_submodule_parent (w\<lparr>argv := a\<rparr>) = spinoff_check_submodule_parent w
    \<and> tests_warm_start (w\<lparr>argv := a\<rparr>) = tests_warm_start w
    \<and> wsl_build_check_win_drive (w\<lparr>argv := a\<rparr>) = wsl_build_check_win_drive w
    \<and> clean_orphaned_assets (w\<lparr>argv := a\<rparr>) assets = clean_orphaned_assets w assets
    \<and> spinoff_test w = call w (SpinoffTest (drop 2 (argv w)))"
proof -
  have "length (argv w) \<noteq> 3 \<longrightarrow>
       gen_monolithic_register_modules w = ([], Inl (CleanError ''Expected 1 arg.''))
       \<and> gen_python_init_module w = ([], Inl (CleanError ''Expected an outfile arg.''))"
    using assms
    by (simp add: gen_monolithic_register_modules_def gen_python_init_module_def outcome_defs)
  moreover have "length (argv w) \<noteq> 5 \<longrightarrow>
       update_cmake_prefab_lib w
         = ([], Inl (CleanError ''Expected 3 args (standard/server, debug/release, build-dir)''))"
    using assms by (simp add: update_cmake_prefab_lib_def outcome_defs)
  moreover have "length (argv w) \<noteq> 4 \<longrightarrow>
       android_archive_unstripped_libs w
         = ([], Inl (CleanError ''Expected 2 args; src-dir and dst-dir''))"
    using assms by (simp add: android_archive_unstripped_libs_def outcome_defs)
  moreover have "length (argv w) \<noteq> 7 \<longrightarrow>
       py_examine w = ([Print (''ERROR: expected 7 args'' @ nl)], Inl (SystemExit 255))"
    using assms by (simp add: py_examine_def outcome_defs)
  moreover have "length (argv w) < 3
        \<or> wsl_parse_args (drop 2 (argv w)) False False None
             = Inl (CleanError ''More than one path provided.'')
        \<or> (\<exists>create escape. wsl_parse_args (drop 2 (argv w)) False False None
                               = Inr (create, escape, None)) \<longrightarrow>
       wsl_path_to_win w
         = ([LogException ''wsl_to_escaped_win_path failed.'', Print wsl_sentinel], Inr ())
       \<and> \<not> list_ex side_effect (fst (wsl_path_to_win w))"
    using wsl_path_to_win_rejected_arguments [OF assms] by auto
  moreover have "spinoff_test w = call w (SpinoffTest (drop 2 (argv w)))"
    by (simp add: spinoff_test_def)
  ultimately show ?thesis
    using commands_without_arguments_ignore_argv [where w = w and a = a] by blast
qed

text \<open>
  Without arguments the header generator and the archiver are rejected with nothing
  done, and two paths make \<open>wsl_path_to_win\<close> print the sentinel.
\<close>

theorem argument_count_checked_before_side_effects_witness:
  "gen_monolithic_register_modules example_world = ([], Inl (CleanError ''Expected 1 arg.''))
   \<and> android_archive_unstripped_libs example_world
       = ([], Inl (CleanError ''Expected 2 args; src-dir and dst-dir''))
   \<and> wsl_path_to_win (example_world\<lparr>argv := [''pcommand'', ''wsl_path_to_win'', ''a'', ''b'']\<rparr>)
       = ([LogException ''wsl_to_escaped_win_path failed.'', Print wsl_sentinel], Inr ())"
proof -
  let ?w = "example_world\<lparr>argv := [''pcommand'', ''wsl_path_to_win'', ''a'', ''b'']\<rparr>"
  have b: "\<not> batch example_world" "\<not> batch ?w"
    by (simp_all add: example_world_def)
  have l: "length (argv example_world) = 2"
    by (simp add: example_world_def)
  have p: "wsl_parse_args (drop 2 (argv ?w)) False False None
             = Inl (CleanError ''More than one path provided.'')"
    by (simp add: example_world_def)
  show ?thesis
    using argument_count_checked_before_side_effects [OF b(1)] l
      argument_count_checked_before_side_effects [OF b(2)] p
    by simp
qed

text \<open>
  C3 as stated fails: with no argument \<open>wsl_path_to_win\<close> returns normally and
  \<open>py_examine\<close> ends with \<open>SystemExit 255\<close>, neither with a misuse error, and
  \<open>tests_warm_start\<close> runs whatever arguments it is given.
\<close>

theorem wrong_argument_count_counterexample:
  "wsl_path_to_win example_world
     = ([LogException ''wsl_to_escaped_win_path failed.'', Print wsl_sentinel], Inr ())
   \<and> py_examine example_world
     = ([Print (''ERROR: expected 7 args'' @ nl)], Inl (SystemExit 255))
   \<and> tests_warm_start (example_world\<lparr>argv := [''pcommand'', ''tests_warm_start'', ''extra'']\<rparr>)
     = ([AcquireBinary ''running tests''], Inr ())"
  by (simp add: wsl_path_to_win_def wsl_path_to_win_guarded_def py_examine_def
      tests_warm_start_def outcome_defs example_world_def)

section \<open>The prefab library\<close>

text \<open>
  C5. When the arguments are valid and \<open>make\<close> has built the target,
  \<open>update_cmake_prefab_lib\<close> runs \<open>cp target libdir\<close>, which puts the library at
  \<open>builddir/prefablib/libballisticaplus.a\<close>, exactly when that file does not exist or its
  modification time is strictly earlier than the target's; with equal times nothing is
  copied; the directory is created exactly when a copy is made and the directory is
  missing. Modification times are compared as real numbers.
\<close>

theorem prefab_lib_copied_iff_missing_or_older:
  assumes "\<not> batch w" and "length (argv w) = 5"
    and "argv w ! 2 \<in> {''standard'', ''server''}" and "argv w ! 3 \<in> {''debug'', ''release''}"
    and "target = prefab_target w (argv w ! 2) (argv w ! 3)"
    and "libdir = path_join (argv w ! 4) ''prefablib''"
    and "libpath = path_join libdir ''libballisticaplus.a''"
    and "subprocess w (Run [''make'', target]) = Some built" and "returncode built = 0"
    and "getmtime w target = Some time1"
    and "path_exists w libpath \<longrightarrow> getmtime w libpath = Some time2"
    and "\<not> os_error w (Makedirs libdir)"
    and "copy \<longleftrightarrow> \<not> path_exists w libpath \<or> time2 < time1"
  shows "fst (update_cmake_prefab_lib w)
           = Run [''make'', target]
             # (if copy then (if \<not> path_exists w libdir then [Makedirs libdir] else [])
                             @ [Run [''cp'', target, libdir]]
                else [])
         \<and> (Run [''cp'', target, libdir] \<in> set (fst (update_cmake_prefab_lib w)) \<longleftrightarrow> copy)
         \<and> (Makedirs libdir \<in> set (fst (update_cmake_prefab_lib w))
              \<longleftrightarrow> copy \<and> \<not> path_exists w libdir)
         \<and> (path_exists w libpath \<and> time2 = time1 \<longrightarrow>
              update_cmake_prefab_lib w = ([Run [''make'', target]], Inr ()))"
  using assms
  by (auto simp: update_cmake_prefab_lib_def outcome_defs Let_def not_le
      split: option.splits)

lemma prefab_world_fields:
  "\<not> batch (prefab_world t)"
  "argv (prefab_world t)
     = [''pcommand'', ''update_cmake_prefab_lib'', ''standard'', ''debug'', ''out'']"
  "prefab_platform (prefab_world t) = ''linux_x86_64''"
  "subprocess (prefab_world t) ev = Some (succeeded [])"
  "path_exists (prefab_world t) p \<longleftrightarrow> p = ''out/prefablib/libballisticaplus.a''"
  "getmtime (prefab_world t) p
     = (if p = ''out/prefablib/libballisticaplus.a'' then Some t else Some 5)"
  "\<not> os_error (prefab_world t) ev"
  by (simp_all add: prefab_world_def example_world_def)

text \<open>
  An older copy (time 3 against 5) is replaced, after the directory is created; a copy
  of the same age (5 against 5) is left alone.
\<close>

theorem prefab_lib_copied_iff_missing_or_older_witness:
  "fst (update_cmake_prefab_lib (prefab_world 3))
     = [Run [''make'', ''build/prefab/lib/linux_x86_64_gui/debug/libballisticaplus.a''],
        Makedirs ''out/prefablib'',
        Run [''cp'', ''build/prefab/lib/linux_x86_64_gui/debug/libballisticaplus.a'',
             ''out/prefablib'']]
   \<and> update_cmake_prefab_lib (prefab_world 5)
     = ([Run [''make'', ''build/prefab/lib/linux_x86_64_gui/debug/libballisticaplus.a'']],
        Inr ())"
proof -
  let ?target = "''build/prefab/lib/linux_x86_64_gui/debug/libballisticaplus.a''"
  let ?libdir = "''out/prefablib''"
  let ?libpath = "''out/prefablib/libballisticaplus.a''"
  have h1: "\<not> batch (prefab_world t)" for t
    by (simp add: prefab_world_fields)
  have h2: "length (argv (prefab_world t)) = 5" for t
    by (simp add: prefab_world_fields)
  have h3: "argv (prefab_world t) ! 2 \<in> {''standard'', ''server''}" for t
    by (simp add: prefab_world_fields)
  have h4: "argv (prefab_world t) ! 3 \<in> {''debug'', ''release''}" for t
    by (simp add: prefab_world_fields)
  have h5: "?target = prefab_target (prefab_world t) (argv (prefab_world t) ! 2)
                        (argv (prefab_world t) ! 3)" for t
    by (simp add: prefab_world_fields prefab_target_def)
  have h6: "?libdir = path_join (argv (prefab_world t) ! 4) ''prefablib''" for t
    by (simp add: prefab_world_fields path_join_def startswith_def endswith_def
        suffix_to_prefix)
  have h7: "?libpath = path_join ?libdir ''libballisticaplus.a''"
    by (simp add: path_join_def startswith_def endswith_def suffix_to_prefix)
  have h8: "subprocess (prefab_world t) (Run [''make'', ?target]) = Some (succeeded [])" for t
    by (simp add: prefab_world_fields)
  have h9: "returncode (succeeded []) = 0"
    by (simp add: succeeded_def)
  have h10: "getmtime (prefab_world t) ?target = Some 5" for t
    by (simp add: prefab_world_fields)
  have h11: "path_exists (prefab_world t) ?libpath \<longrightarrow>
               getmtime (prefab_world t) ?libpath = Some t" for t
    by (simp add: prefab_world_fields)
  have h12: "\<not> os_error (prefab_world t) (Makedirs ?libdir)" for t
    by (simp add: prefab_world_fields)
  have c3: "True \<longleftrightarrow> \<not> path_exists (prefab_world 3) ?libpath \<or> (3::real) < 5"
    by simp
  have c5: "False \<longleftrightarrow> \<not> path_exists (prefab_world 5) ?libpath \<or> (5::real) < 5"
    by (simp add: prefab_world_fields)
  have e: "path_exists (prefab_world 5) ?libpath" "\<not> path_exists (prefab_world 3) ?libdir"
    by (simp_all add: prefab_world_fields)
  show ?thesis
    using prefab_lib_copied_iff_missing_or_older
            [OF h1 h2 h3 h4 h5 h6 h7 h8 h9 h10 h11 h12 c3]
          prefab_lib_copied_iff_missing_or_older
            [OF h1 h2 h3 h4 h5 h6 h7 h8 h9 h10 h11 h12 c5]
          e
    by simp
qed

section \<open>The orphan cleaner\<close>

lemma walk_files_simps [simp]:
  "walk_files [] = []"
  "walk_files ((dirpath, dirs, fnames) # walked) = map (path_join dirpath) fnames @ walk_files walked"
  "walk_files (xs @ ys) = walk_files xs @ walk_files ys"
  by (simp_all add: walk_files_def)

lemma path_join_plain:
  assumes "topdir \<noteq> []" and "last topdir \<noteq> CHR ''/''" and "n \<noteq> []" and "CHR ''/'' \<notin> set n"
  shows "path_join topdir n = topdir @ ''/'' @ n"
proof -
  have "\<not> prefix ''/'' n"
    using assms(3,4) by (cases n) auto
  moreover have "\<not> suffix ''/'' topdir"
    using assms(1,2) by (auto simp: suffix_def)
  ultimately show ?thesis
    using assms(1) by (simp add: path_join_def startswith_def endswith_def)
qed

lemma walked_paths_under_topdir:
  "topdir \<noteq> [] \<Longrightarrow> last topdir \<noteq> CHR ''/'' \<Longrightarrow> valid_tree t \<Longrightarrow>
     \<forall>p \<in> set (walk_files (walk topdir t)). prefix (topdir @ ''/'') p"
  "topdir \<noteq> [] \<Longrightarrow> last topdir \<noteq> CHR ''/'' \<Longrightarrow> valid_entries es \<Longrightarrow>
     (\<forall>n \<in> set (map fst (filter (\<lambda>e. \<not> is_dir_entry e) es)).
        prefix (topdir @ ''/'') (path_join topdir n))
     \<and> (\<forall>p \<in> set (walk_files (walk_subdirs topdir es)). prefix (topdir @ ''/'') p)"
proof (induction topdir t and topdir es rule: walk_walk_subdirs.induct)
  case (1 topdir)
  then show ?case by simp
next
  case (2 topdir es)
  then show ?case by auto
next
  case (3 topdir)
  then show ?case by simp
next
  case (4 topdir n c es)
  then have n: "n \<noteq> []" "CHR ''/'' \<notin> set n" and c: "valid_tree c" and es: "valid_entries es"
    by simp_all
  have j: "path_join topdir n = topdir @ ''/'' @ n"
    using path_join_plain [OF "4.prems"(1,2) n] .
  have "last n \<in> set n"
    using n(1) by simp
  then have "last n \<noteq> CHR ''/''"
    using n(2) by metis
  then have l: "path_join topdir n \<noteq> []" "last (path_join topdir n) \<noteq> CHR ''/''"
    using n(1) by (simp_all add: j)
  have rest: "(\<forall>n \<in> set (map fst (filter (\<lambda>e. \<not> is_dir_entry e) es)).
        prefix (topdir @ ''/'') (path_join topdir n))
     \<and> (\<forall>p \<in> set (walk_files (walk_subdirs topdir es)). prefix (topdir @ ''/'') p)"
    using "4.IH"(2) "4.prems"(1,2) es by simp
  show ?case
  proof (cases c)
    case File
    with rest show ?thesis by (simp add: j)
  next
    case (Dir ds)
    have "\<forall>p \<in> set (walk_files (walk (path_join topdir n) c)).
            prefix (path_join topdir n @ ''/'') p"
      using "4.IH"(1) [OF Dir l c] .
    then have "\<forall>p \<in> set (walk_files (walk (path_join topdir n) c)). prefix (topdir @ ''/'') p"
      unfolding j by (auto simp: prefix_def)
    with rest Dir show ?thesis by auto
  qed
qed

lemma walked_files_under_build_assets:
  assumes "valid_tree t" and "p \<in> set (walked_files ''build/assets'' (Some t))"
  shows "p = ''build/assets/'' @ drop 13 p"
proof -
  have "prefix (''build/assets'' @ ''/'') p"
    using walked_paths_under_topdir(1) [of "''build/assets''" t] assms
    by (simp add: walked_files_def)
  then show ?thesis by (auto simp: prefix_def)
qed

lemma unlink_files:
  "walk_files (walk topdir (unlink p topdir t))
     = filter (\<lambda>q. q \<noteq> p) (walk_files (walk topdir t))"
  "map (path_join topdir) (map fst (filter (\<lambda>e. \<not> is_dir_entry e) (unlink_entries p topdir es)))
     = filter (\<lambda>q. q \<noteq> p)
         (map (path_join topdir) (map fst (filter (\<lambda>e. \<not> is_dir_entry e) es)))
   \<and> walk_files (walk_subdirs topdir (unlink_entries p topdir es))
     = filter (\<lambda>q. q \<noteq> p) (walk_files (walk_subdirs topdir es))"
  by (induction p topdir t and p topdir es rule: unlink_unlink_entries.induct)
     (auto split: node.splits)

lemma fold_unlink_files:
  "walk_files (walk topdir (fold (\<lambda>p. unlink p topdir) ps t))
     = filter (\<lambda>q. q \<notin> set ps) (walk_files (walk topdir t))"
proof (induction ps arbitrary: t)
  case Nil
  then show ?case by simp
next
  case (Cons p ps)
  have "filter (\<lambda>q. q \<notin> set ps) (filter (\<lambda>q. q \<noteq> p) xs)
          = filter (\<lambda>q. q \<notin> set (p # ps)) xs" for xs :: "string list"
    by (induction xs) auto
  with Cons show ?case by (simp add: unlink_files)
qed

lemma prune_entries_append:
  "prune_entries (es @ es') = prune_entries es @ prune_entries es'"
  by (induction es) (auto split: option.splits)

lemma prune_Some_Dir: "prune (Dir es) = Some t \<Longrightarrow> t = Dir (prune_entries es)"
  by (simp add: Let_def split: if_splits)

lemma prune_files:
  "(prune t = None \<longrightarrow> walk_files (walk topdir t) = [])
   \<and> (\<forall>t'. prune t = Some t' \<longrightarrow> walk_files (walk topdir t') = walk_files (walk topdir t))"
  "map fst (filter (\<lambda>e. \<not> is_dir_entry e) (prune_entries es))
     = map fst (filter (\<lambda>e. \<not> is_dir_entry e) es)
   \<and> walk_files (walk_subdirs topdir (prune_entries es)) = walk_files (walk_subdirs topdir es)"
proof (induction t and es arbitrary: topdir and topdir rule: prune_prune_entries.induct)
  case 1
  then show ?case by simp
next
  case (2 es)
  then show ?case by (auto simp: Let_def)
next
  case 3
  then show ?case by simp
next
  case (4 n c es)
  show ?case
  proof (cases c)
    case File
    with 4 show ?thesis by simp
  next
    case (Dir ds)
    show ?thesis
    proof (cases "prune c")
      case None
      with 4 Dir show ?thesis by simp
    next
      case (Some c')
      with Dir have "c' = Dir (prune_entries ds)"
        using prune_Some_Dir by simp
      with 4 Dir Some show ?thesis by simp
    qed
  qed
qed

lemma prune_idem:
  "\<forall>t'. prune t = Some t' \<longrightarrow> prune t' = Some t'"
  "prune_entries (prune_entries es) = prune_entries es"
proof (induction t and es rule: prune_prune_entries.induct)
  case 1
  then show ?case by simp
next
  case (2 es)
  then show ?case by (auto simp: Let_def)
next
  case 3
  then show ?case by simp
next
  case (4 n c es)
  then show ?case
    by (cases "prune c") (simp_all add: prune_entries_append)
qed

lemma unlink_in_orphan_events:
  "Unlink p \<in> set (concat (map (orphan_events manifest) fpaths))
     \<longleftrightarrow> p \<in> set fpaths \<and> drop 13 p \<notin> manifest"
  by (induction fpaths) (auto simp: orphan_events_def)

lemma orphans_of_kept: "orphans manifest (filter (\<lambda>q. q \<notin> set (orphans manifest fpaths)) fpaths) = []"
  by (induction fpaths) (auto simp: orphans_def)

lemma kept_files: "filter (\<lambda>q. q \<notin> set (orphans manifest fpaths)) fpaths
                     = filter (\<lambda>p. drop 13 p \<in> manifest) fpaths"
  by (rule filter_cong) (auto simp: orphans_def)

lemma no_orphan_events:
  "orphans manifest fpaths = [] \<Longrightarrow> concat (map (orphan_events manifest) fpaths) = []"
  by (induction fpaths) (auto simp: orphans_def orphan_events_def split: if_splits)

lemma walked_files_pruned:
  "walked_files topdir (prune t) = walk_files (walk topdir t)"
  using prune_files(1) [of t topdir] by (cases "prune t") (auto simp: walked_files_def)

lemma clean_loop_closed_form:
  assumes "\<forall>p \<in> set fpaths. \<not> os_error w (Unlink p)"
  shows "clean_loop w manifest fpaths assets
           = ((concat (map (orphan_events manifest) fpaths), Inr ()),
              map_option (fold (\<lambda>p. unlink p ''build/assets'') (orphans manifest fpaths)) assets)"
  using assms
proof (induction fpaths arbitrary: assets)
  case Nil
  then show ?case by (simp add: orphans_def option.map_ident ret_def)
next
  case (Cons fpath fpaths)
  then show ?case
    by (simp add: orphans_def orphan_events_def Let_def option.map_comp comp_def)
qed

lemma clean_loop_unlinks_orphans_only:
  "Unlink p \<in> set (fst (fst (clean_loop w manifest fpaths assets))) \<Longrightarrow>
     p \<in> set fpaths \<and> drop 13 p \<notin> manifest"
proof (induction fpaths arbitrary: assets)
  case Nil
  then show ?case by (simp add: ret_def)
next
  case (Cons fpath fpaths)
  show ?case
  proof (cases "drop 13 fpath \<notin> manifest \<and> \<not> os_error w (Unlink fpath)")
    case True
    obtain evs r assets' where
      rest: "clean_loop w manifest fpaths (map_option (unlink fpath ''build/assets'') assets)
               = ((evs, r), assets')"
      by (metis prod.exhaust)
    with True Cons.prems have "p = fpath \<or> Unlink p \<in> set evs"
      by (simp add: Let_def)
    with True rest Cons.IH [of "map_option (unlink fpath ''build/assets'') assets"]
    show ?thesis by auto
  next
    case False
    with Cons show ?thesis
      by (auto simp: Let_def split: if_splits)
  qed
qed

lemma clean_loop_files:
  "walked_files ''build/assets'' (snd (clean_loop w manifest fpaths assets))
     = filter (\<lambda>q. q \<notin> set (orphans manifest fpaths)) (walked_files ''build/assets'' assets)"
  if "\<forall>p \<in> set fpaths. \<not> os_error w (Unlink p)"
  unfolding clean_loop_closed_form [OF that]
  by (cases assets) (simp_all add: walked_files_def fold_unlink_files)

lemma clean_orphaned_assets_run:
  assumes "\<not> batch w" and "\<not> os_error w (Chdir (projroot w))"
    and "json_list w ''src/assets/.asset_manifest_public.json'' = Inr public"
    and "json_list w ''src/assets/.asset_manifest_private.json'' = Inr private"
    and "\<forall>p. \<not> os_error w (Unlink p)"
    and "subprocess w (RunShell find_command) = Some found" and "returncode found = 0"
    and "manifest = set public \<union> set private"
    and "fpaths = walked_files ''build/assets'' assets"
  shows "clean_orphaned_assets w assets
           = ((Chdir (projroot w) # concat (map (orphan_events manifest) fpaths)
                 @ [RunShell find_command],
               if assets = None then Inl (CalledProcessError 1) else Inr ()),
              case assets of
                None \<Rightarrow> None
              | Some t \<Rightarrow> prune (fold (\<lambda>p. unlink p ''build/assets'') (orphans manifest fpaths) t))"
proof -
  have "clean_loop w manifest fpaths assets
           = ((concat (map (orphan_events manifest) fpaths), Inr ()),
              map_option (fold (\<lambda>p. unlink p ''build/assets'') (orphans manifest fpaths)) assets)"
    by (rule clean_loop_closed_form) (simp add: assms(5))
  with assms show ?thesis
    by (cases assets) (simp_all add: clean_orphaned_assets_def Let_def)
qed

lemma example_world_fields:
  "\<not> batch example_world"
  "projroot example_world = ''/proj''"
  "\<not> os_error example_world ev"
  "json_list example_world ''src/assets/.asset_manifest_public.json'' = Inr [''a/x.png'']"
  "json_list example_world ''src/assets/.asset_manifest_private.json'' = Inr []"
  by (simp_all add: example_world_def)

lemma cleaner_world_fields:
  "\<not> batch cleaner_world"
  "\<not> os_error cleaner_world (Chdir (projroot cleaner_world))"
  "json_list cleaner_world ''src/assets/.asset_manifest_public.json'' = Inr [''a/x.png'']"
  "json_list cleaner_world ''src/assets/.asset_manifest_private.json'' = Inr []"
  "\<forall>p. \<not> os_error cleaner_world (Unlink p)"
  "subprocess cleaner_world (RunShell find_command) = Some (succeeded [])"
  "returncode (succeeded []) = 0"
  "projroot cleaner_world = ''/proj''"
  by (simp_all add: cleaner_world_def example_world_def succeeded_def)

lemmas cleaner_world_run =
  clean_orphaned_assets_run [OF cleaner_world_fields(1-7) refl refl]

lemma example_walks:
  "walked_files ''build/assets'' (Some example_assets)
     = [''build/assets/a/x.png'', ''build/assets/b/y.png'']"
  "walked_files ''build/assets'' (Some orphan_only_assets) = [''build/assets/y.png'']"
  by (simp_all add: walked_files_def example_assets_def orphan_only_assets_def path_join_def
      startswith_def endswith_def suffix_to_prefix)

lemma example_first_clean:
  "clean_orphaned_assets cleaner_world (Some example_assets)
     = (([Chdir ''/proj'',
          Print (''Removing orphaned asset file: build/assets/b/y.png'' @ nl),
          Unlink ''build/assets/b/y.png'',
          RunShell find_command], Inr ()),
        Some (Dir [(''a'', Dir [(''x.png'', File)])]))"
  unfolding cleaner_world_run example_walks
  by (simp add: cleaner_world_fields orphan_events_def orphans_def example_assets_def
      path_join_def startswith_def endswith_def suffix_to_prefix)

lemma orphan_only_first_clean:
  "clean_orphaned_assets cleaner_world (Some orphan_only_assets)
     = (([Chdir ''/proj'',
          Print (''Removing orphaned asset file: build/assets/y.png'' @ nl),
          Unlink ''build/assets/y.png'',
          RunShell find_command], Inr ()),
        None)"
  unfolding cleaner_world_run example_walks
  by (simp add: cleaner_world_fields orphan_events_def orphans_def orphan_only_assets_def
      path_join_def startswith_def endswith_def suffix_to_prefix)

lemma clean_orphaned_assets_unlinks:
  assumes "\<not> batch w" and "\<not> os_error w (Chdir (projroot w))"
    and "json_list w ''src/assets/.asset_manifest_public.json'' = Inr public"
    and "json_list w ''src/assets/.asset_manifest_private.json'' = Inr private"
    and "clean_loop w (set public \<union> set private) (walked_files ''build/assets'' assets) assets
           = ((removals, r), assets1)"
  shows "\<forall>p. Unlink p \<in> set (fst (fst (clean_orphaned_assets w assets)))
               \<longleftrightarrow> Unlink p \<in> set removals"
    and "walked_files ''build/assets'' (snd (clean_orphaned_assets w assets))
           = walked_files ''build/assets'' assets1"
proof -
  show "\<forall>p. Unlink p \<in> set (fst (fst (clean_orphaned_assets w assets)))
               \<longleftrightarrow> Unlink p \<in> set removals"
    using assms
    by (auto simp: clean_orphaned_assets_def Let_def split: sum.splits option.splits)
  have "walked_files ''build/assets'' (prune t) = walked_files ''build/assets'' (Some t)" for t
    unfolding walked_files_pruned by (simp add: walked_files_def)
  then show "walked_files ''build/assets'' (snd (clean_orphaned_assets w assets))
           = walked_files ''build/assets'' assets1"
    using assms
    by (auto simp: clean_orphaned_assets_def Let_def split: sum.splits option.splits)
qed

text \<open>
  C6. Once the manifests are read, \<open>clean_orphaned_assets\<close> unlinks only paths that the
  walk of \<open>build/assets\<close> finds as files and that, without their first 13 characters, the
  length of \<open>build/assets/\<close>, are in neither manifest. When no \<open>os.unlink\<close> fails it
  unlinks every such path, and the files it leaves are exactly the walked files whose
  stripped path is in the union of the manifests. In a tree with proper entry names every
  walked path is \<open>build/assets/\<close> followed by its stripped path.
\<close>

theorem orphans_deleted_listed_files_kept:
  assumes "\<not> batch w" and "\<not> os_error w (Chdir (projroot w))"
    and "json_list w ''src/assets/.asset_manifest_public.json'' = Inr public"
    and "json_list w ''src/assets/.asset_manifest_private.json'' = Inr private"
  shows "(\<forall>p. Unlink p \<in> set (fst (fst (clean_orphaned_assets w assets)))
              \<longrightarrow> p \<in> set (walked_files ''build/assets'' assets)
                  \<and> drop 13 p \<notin> set public \<union> set private)
         \<and> ((\<forall>p. \<not> os_error w (Unlink p)) \<longrightarrow>
              (\<forall>p. Unlink p \<in> set (fst (fst (clean_orphaned_assets w assets)))
                   \<longleftrightarrow> p \<in> set (walked_files ''build/assets'' assets)
                       \<and> drop 13 p \<notin> set public \<union> set private)
              \<and> walked_files ''build/assets'' (snd (clean_orphaned_assets w assets))
                  = filter (\<lambda>p. drop 13 p \<in> set public \<union> set private)
                      (walked_files ''build/assets'' assets))
         \<and> length ''build/assets/'' = 13
         \<and> (\<forall>t. assets = Some t \<and> valid_tree t \<longrightarrow>
              (\<forall>p \<in> set (walked_files ''build/assets'' assets).
                 p = ''build/assets/'' @ drop 13 p))"
proof -
  let ?manifest = "set public \<union> set private"
  let ?fpaths = "walked_files ''build/assets'' assets"
  obtain removals r assets1 where
    loop: "clean_loop w ?manifest ?fpaths assets = ((removals, r), assets1)"
    by (metis prod.exhaust)
  note run = clean_orphaned_assets_unlinks [OF assms loop]
  have c1: "\<forall>p. Unlink p \<in> set removals
                \<longrightarrow> p \<in> set ?fpaths \<and> drop 13 p \<notin> ?manifest"
  proof (intro allI impI)
    fix p
    assume "Unlink p \<in> set removals"
    then have "Unlink p \<in> set (fst (fst (clean_loop w ?manifest ?fpaths assets)))"
      unfolding loop by simp
    then show "p \<in> set ?fpaths \<and> drop 13 p \<notin> ?manifest"
      by (rule clean_loop_unlinks_orphans_only)
  qed
  have c2: "(\<forall>p. \<not> os_error w (Unlink p)) \<longrightarrow>
              (\<forall>p. Unlink p \<in> set removals
                   \<longleftrightarrow> p \<in> set ?fpaths \<and> drop 13 p \<notin> ?manifest)
              \<and> walked_files ''build/assets'' assets1
                  = filter (\<lambda>p. drop 13 p \<in> ?manifest) ?fpaths"
  proof
    assume ok: "\<forall>p. \<not> os_error w (Unlink p)"
    then have nofail: "\<forall>p \<in> set ?fpaths. \<not> os_error w (Unlink p)"
      by blast
    have closed: "clean_loop w ?manifest ?fpaths assets
           = ((concat (map (orphan_events ?manifest) ?fpaths), Inr ()),
              map_option (fold (\<lambda>p. unlink p ''build/assets'') (orphans ?manifest ?fpaths))
                assets)"
      by (rule clean_loop_closed_form [OF nofail])
    have removals: "removals = concat (map (orphan_events ?manifest) ?fpaths)"
      using loop unfolding closed by simp
    have a: "\<forall>p. Unlink p \<in> set removals
                 \<longleftrightarrow> p \<in> set ?fpaths \<and> drop 13 p \<notin> ?manifest"
      unfolding removals by (intro allI) (rule unlink_in_orphan_events)
    have "walked_files ''build/assets'' (snd (clean_loop w ?manifest ?fpaths assets))
            = filter (\<lambda>q. q \<notin> set (orphans ?manifest ?fpaths)) ?fpaths"
      by (rule clean_loop_files [OF nofail])
    then have b: "walked_files ''build/assets'' assets1
                    = filter (\<lambda>p. drop 13 p \<in> ?manifest) ?fpaths"
      unfolding loop snd_conv kept_files .
    from a b show "(\<forall>p. Unlink p \<in> set removals
                   \<longleftrightarrow> p \<in> set ?fpaths \<and> drop 13 p \<notin> ?manifest)
              \<and> walked_files ''build/assets'' assets1
                  = filter (\<lambda>p. drop 13 p \<in> ?manifest) ?fpaths"
      by (rule conjI)
  qed
  have c3: "length ''build/assets/'' = 13"
    by simp
  have c4: "\<forall>t. assets = Some t \<and> valid_tree t \<longrightarrow>
              (\<forall>p \<in> set ?fpaths. p = ''build/assets/'' @ drop 13 p)"
    using walked_files_under_build_assets by blast
  have r1: "(Unlink p \<in> set (fst (fst (clean_orphaned_assets w assets))))
              = (Unlink p \<in> set removals)" for p
    using run(1) by blast
  show ?thesis
    unfolding r1 run(2) by (rule conjI [OF c1 conjI [OF c2 conjI [OF c3 c4]]])
qed

lemma unlink_fails_world:
  "clean_orphaned_assets (cleaner_world\<lparr>os_error := (\<lambda>ev. ev = Unlink ''build/assets/b/y.png'')\<rparr>)
       (Some example_assets)
     = (([Chdir ''/proj'',
          Print (''Removing orphaned asset file: build/assets/b/y.png'' @ nl),
          Unlink ''build/assets/b/y.png''], Inl OSError),
        Some example_assets)"
  by (simp add: clean_orphaned_assets_def cleaner_world_def example_world_def example_walks
      Let_def)

text \<open>
  With the manifest \<open>a/x.png\<close> and the files \<open>a/x.png\<close> and \<open>b/y.png\<close>, only \<open>b/y.png\<close>
  is unlinked.
\<close>

theorem orphans_deleted_listed_files_kept_witness:
  "Unlink ''build/assets/b/y.png''
     \<in> set (fst (fst (clean_orphaned_assets cleaner_world (Some example_assets))))
   \<and> Unlink ''build/assets/a/x.png''
     \<notin> set (fst (fst (clean_orphaned_assets cleaner_world (Some example_assets))))
   \<and> walked_files ''build/assets'' (snd (clean_orphaned_assets cleaner_world (Some example_assets)))
     = [''build/assets/a/x.png'']"
  using orphans_deleted_listed_files_kept
    [OF cleaner_world_fields(1-4), of "Some example_assets"] cleaner_world_fields(5)
  by (simp add: example_walks)

text \<open>
  C7 (amended). When no \<open>os.unlink\<close> fails and \<open>find\<close> runs and exits with status 0
  wherever \<open>build/assets\<close> exists, a first run on an existing tree succeeds, and a second
  run with the same manifests unlinks nothing and leaves the state of \<open>build/assets\<close> as
  the first run left it; when \<open>build/assets\<close> still exists after the first run the second
  run does nothing but \<open>chdir\<close> and \<open>find\<close>, and raises no error.
\<close>

theorem second_clean_changes_nothing:
  assumes "\<not> batch w" and "\<not> os_error w (Chdir (projroot w))"
    and "json_list w ''src/assets/.asset_manifest_public.json'' = Inr public"
    and "json_list w ''src/assets/.asset_manifest_private.json'' = Inr private"
    and "\<forall>p. \<not> os_error w (Unlink p)"
    and "subprocess w (RunShell find_command) = Some found" and "returncode found = 0"
    and "first = clean_orphaned_assets w (Some t)"
    and "second = clean_orphaned_assets w (snd first)"
  shows "snd (fst first) = Inr ()
         \<and> snd second = snd first
         \<and> (\<forall>p. Unlink p \<notin> set (fst (fst second)))
         \<and> (snd first \<noteq> None \<longrightarrow>
              fst second = ([Chdir (projroot w), RunShell find_command], Inr ()))"
proof -
  let ?manifest = "set public \<union> set private"
  let ?fpaths = "walk_files (walk ''build/assets'' t)"
  let ?t1 = "fold (\<lambda>p. unlink p ''build/assets'') (orphans ?manifest ?fpaths) t"
  note run = clean_orphaned_assets_run [OF assms(1-7) refl refl]
  have first: "first = ((Chdir (projroot w) # concat (map (orphan_events ?manifest) ?fpaths)
                          @ [RunShell find_command], Inr ()), prune ?t1)"
    unfolding assms(8) run by (simp add: walked_files_def)
  have files1: "walked_files ''build/assets'' (prune ?t1)
                  = filter (\<lambda>q. q \<notin> set (orphans ?manifest ?fpaths)) ?fpaths"
    by (simp add: walked_files_pruned fold_unlink_files)
  have none: "orphans ?manifest (walked_files ''build/assets'' (prune ?t1)) = []"
    unfolding files1 by (rule orphans_of_kept)
  have second: "second = ((Chdir (projroot w) # [RunShell find_command],
                           if prune ?t1 = None then Inl (CalledProcessError 1) else Inr ()),
                          case prune ?t1 of None \<Rightarrow> None | Some t' \<Rightarrow> prune t')"
    unfolding assms(9) first snd_conv run none no_orphan_events [OF none]
    by (simp cong: option.case_cong)
  have "(case prune ?t1 of None \<Rightarrow> None | Some t' \<Rightarrow> prune t') = prune ?t1"
    using prune_idem(1) [of ?t1] by (cases "prune ?t1") auto
  with first second show ?thesis by auto
qed

text \<open>
  On the example tree the second run is \<open>chdir\<close> and \<open>find\<close>, and \<open>a/x.png\<close> stays.
\<close>

theorem second_clean_changes_nothing_witness:
  "clean_orphaned_assets cleaner_world (snd (clean_orphaned_assets cleaner_world (Some example_assets)))
     = (([Chdir ''/proj'', RunShell find_command], Inr ()),
        Some (Dir [(''a'', Dir [(''x.png'', File)])]))"
  using second_clean_changes_nothing
    [OF cleaner_world_fields(1-7) refl refl, of example_assets]
  by (simp add: example_first_clean cleaner_world_fields prod_eq_iff)

text \<open>
  C7 as stated fails: when every file is an orphan the first run leaves nothing, \<open>find\<close>
  removes \<open>build/assets\<close> itself, and in the second run \<open>find\<close> exits with status 1,
  which is raised as an error.
\<close>

theorem second_clean_fails_counterexample:
  "snd (clean_orphaned_assets cleaner_world (Some orphan_only_assets)) = None
   \<and> clean_orphaned_assets cleaner_world
       (snd (clean_orphaned_assets cleaner_world (Some orphan_only_assets)))
     = (([Chdir ''/proj'', RunShell find_command], Inl (CalledProcessError 1)), None)"
proof -
  have "clean_orphaned_assets cleaner_world None
          = (([Chdir ''/proj'', RunShell find_command], Inl (CalledProcessError 1)), None)"
    unfolding cleaner_world_run
    by (simp add: cleaner_world_fields walked_files_def)
  then show ?thesis
    by (simp add: orphan_only_first_clean)
qed

section \<open>The Windows drive check\<close>

text \<open>
  C8. With \<open>wslpath\<close> found, \<open>wsl_build_check_win_drive\<close> returns at once, without
  translating any path, when \<open>WSL_BUILD_CHECK_WIN_DRIVE_IGNORE\<close> is \<open>1\<close>; otherwise, the
  translation of the working directory at hand, it raises the clean error of four
  paragraphs exactly when the stripped translation begins with two backslashes and
  \<open>wsl$\<close>, and returns normally when it does not.
\<close>

theorem win_drive_check:
  assumes "\<not> batch w"
    and "subprocess w (Run [''which'', ''wslpath'']) = Some found" and "returncode found = 0"
  shows "(environ w ''WSL_BUILD_CHECK_WIN_DRIVE_IGNORE'' = Some ''1'' \<longrightarrow>
            wsl_build_check_win_drive w = ([Run [''which'', ''wslpath'']], Inr ()))
         \<and> (environ w ''WSL_BUILD_CHECK_WIN_DRIVE_IGNORE'' \<noteq> Some ''1''
            \<and> subprocess w (Run [''wslpath'', ''-w'', ''-a'', getcwd w]) = Some translated
            \<and> returncode translated = 0 \<longrightarrow>
              wsl_build_check_win_drive w
                = ([Run [''which'', ''wslpath''], Run [''wslpath'', ''-w'', ''-a'', getcwd w]],
                   if prefix ([bslash, bslash] @ ''wsl$'') (strip (stdout translated))
                   then Inl (CleanError (join (nl @ nl) win_drive_paragraphs))
                   else Inr ()))
         \<and> length win_drive_paragraphs = 4"
  using assms
  by (auto simp: wsl_build_check_win_drive_def outcome_defs startswith_def wsl_prefix_def
      win_drive_message_def win_drive_paragraphs_def)

text \<open>
  A project on the Linux file system passes with the override and fails without it; a
  project on drive \<open>C:\<close> passes.
\<close>

theorem win_drive_check_witness:
  "wsl_build_check_win_drive (wsl_world (Some ''1'') ([bslash, bslash] @ ''wsl$'' @ [bslash] @ ''Ubuntu''))
     = ([Run [''which'', ''wslpath'']], Inr ())
   \<and> snd (wsl_build_check_win_drive
            (wsl_world None ([bslash, bslash] @ ''wsl$'' @ [bslash] @ ''Ubuntu'' @ nl)))
     = Inl (CleanError win_drive_message)
   \<and> snd (wsl_build_check_win_drive (wsl_world (Some ''0'') (''C:'' @ [bslash] @ ''proj'' @ nl)))
     = Inr ()"
proof -
  let ?u = "[bslash, bslash] @ ''wsl$'' @ [bslash] @ ''Ubuntu''"
  let ?c = "''C:'' @ [bslash] @ ''proj'' @ nl"
  have s: "strip (?u @ nl) = ?u" "strip ?c = ''C:'' @ [bslash] @ ''proj''"
    by (simp_all add: strip_def lstrip_def rstrip_def isspace_def nl_def bslash_def)
  have p: "prefix ([bslash, bslash] @ ''wsl$'') ?u"
    "\<not> prefix ([bslash, bslash] @ ''wsl$'') (''C:'' @ [bslash] @ ''proj'')"
    by (simp_all add: bslash_def)
  show ?thesis
    using win_drive_check [of "wsl_world (Some ''1'') ?u" "succeeded ''/usr/bin/wslpath''"]
      win_drive_check [of "wsl_world None (?u @ nl)" "succeeded ''/usr/bin/wslpath''"
                          "succeeded (?u @ nl)"]
      win_drive_check [of "wsl_world (Some ''0'') ?c" "succeeded ''/usr/bin/wslpath''"
                          "succeeded ?c"]
      s p
    by (simp add: wsl_world_def example_world_def succeeded_def win_drive_message_def)
qed

section \<open>Failures of the path translation\<close>

lemma wsl_guarded_error_is_exception:
  assumes "wsl_path_to_win_guarded w = (t, Inl e)"
  shows "is_exception e"
proof -
  have "e \<noteq> SystemExit n" for n
    using assms wsl_parse_args_error [of "drop 2 (argv w)" False False None]
    by (auto simp: wsl_path_to_win_guarded_def outcome_defs
        split: if_splits sum.splits prod.splits option.splits)
  then show ?thesis by (cases e) auto
qed

text \<open>
  C9. Whenever the guarded region of \<open>wsl_path_to_win\<close> ends with an exception, after
  whatever effects it had, the command logs the exception, prints the sentinel
  \<open>wsl_to_escaped_win_path_error_occurred\<close> and nothing after it, and returns normally.
\<close>

theorem wsl_path_to_win_failure_sentinel:
  assumes "\<not> batch w" and "wsl_path_to_win_guarded w = (t, Inl e)"
  shows "wsl_path_to_win w
           = (t @ [LogException ''wsl_to_escaped_win_path failed.'',
                   Print ''wsl_to_escaped_win_path_error_occurred''], Inr ())"
  using assms wsl_guarded_error_is_exception [OF assms(2)]
  by (simp add: wsl_path_to_win_def outcome_defs wsl_sentinel_def)

text \<open>
  The sentinel after a missing argument, after a failed \<open>--create\<close>, and when \<open>wslpath\<close>
  cannot be started.
\<close>

theorem wsl_path_to_win_failure_sentinel_witness:
  "wsl_path_to_win example_world
     = ([LogException ''wsl_to_escaped_win_path failed.'',
         Print ''wsl_to_escaped_win_path_error_occurred''], Inr ())
   \<and> wsl_path_to_win (example_world\<lparr>argv := [''pcommand'', ''wsl_path_to_win'', ''--create'', ''/mnt/c/x''],
                                     os_error := (\<lambda>ev. ev = Makedirs ''/mnt/c/x'')\<rparr>)
     = ([Makedirs ''/mnt/c/x'', LogException ''wsl_to_escaped_win_path failed.'',
         Print ''wsl_to_escaped_win_path_error_occurred''], Inr ())
   \<and> wsl_path_to_win (example_world\<lparr>argv := [''pcommand'', ''wsl_path_to_win'', ''/mnt/c/x''],
                                     path_exists := (\<lambda>_. True)\<rparr>)
     = ([Run [''wslpath'', ''-w'', ''-a'', ''/mnt/c/x''],
         LogException ''wsl_to_escaped_win_path failed.'',
         Print ''wsl_to_escaped_win_path_error_occurred''], Inr ())"
proof -
  let ?w2 = "example_world\<lparr>argv := [''pcommand'', ''wsl_path_to_win'', ''--create'', ''/mnt/c/x''],
                            os_error := (\<lambda>ev. ev = Makedirs ''/mnt/c/x'')\<rparr>"
  let ?w3 = "example_world\<lparr>argv := [''pcommand'', ''wsl_path_to_win'', ''/mnt/c/x''],
                            path_exists := (\<lambda>_. True)\<rparr>"
  have g1: "wsl_path_to_win_guarded example_world
              = ([], Inl (CleanError ''Expected at least 1 path arg.''))"
    by (simp add: wsl_path_to_win_guarded_def outcome_defs example_world_def)
  have g2: "wsl_path_to_win_guarded ?w2 = ([Makedirs ''/mnt/c/x''], Inl OSError)"
    by (simp add: wsl_path_to_win_guarded_def outcome_defs example_world_def)
  have g3: "wsl_path_to_win_guarded ?w3
              = ([Run [''wslpath'', ''-w'', ''-a'', ''/mnt/c/x'']], Inl OSError)"
    by (simp add: wsl_path_to_win_guarded_def outcome_defs example_world_def)
  have b: "\<not> batch example_world" "\<not> batch ?w2" "\<not> batch ?w3"
    by (simp_all add: example_world_def)
  show ?thesis
    using wsl_path_to_win_failure_sentinel [OF b(1) g1]
      wsl_path_to_win_failure_sentinel [OF b(2) g2]
      wsl_path_to_win_failure_sentinel [OF b(3) g3]
    by simp
qed

section \<open>The archive of unstripped libraries\<close>

lemma archive_one_no_clean_error: "snd (archive_one w src dst ab) \<noteq> Inl (CleanError m)"
  by (auto simp: archive_one_def outcome_defs Let_def split: option.splits)

lemma for_each_archive_no_clean_error:
  "snd (for_each abis (archive_one w src dst)) \<noteq> Inl (CleanError m)"
proof (induction abis)
  case Nil
  then show ?case by (simp add: ret_def)
next
  case (Cons ab abis)
  then show ?case
    using archive_one_no_clean_error [of w src dst ab m]
    by (cases "archive_one w src dst ab")
       (auto simp: and_then_def split: sum.splits prod.splits)
qed

text \<open>
  C10. With two arguments, \<open>android_archive_unstripped_libs\<close> first removes an existing
  destination with \<open>rm -rf\<close>; when that fails the run ends there, with another error than
  the source-directory error. It then creates the destination, and ends with that error
  if the creation fails. Only then does it look at the source: when the source is no
  directory the run ends with the source-directory error, and when it is one the loop
  over the libraries follows. Hence, whenever the run ends with the source-directory
  error, its effects are exactly the removal of the destination, if there was one, and
  the creation of the destination, both of which succeeded. Source and destination are
  the paths as \<open>pathlib\<close> normalises them.
\<close>

theorem archive_destination_replaced_before_source_check:
  assumes "\<not> batch w"
    and "src = Path (argv w ! 2)" and "dst = Path (argv w ! 3)"
    and "removed \<longleftrightarrow>
           (path_exists w dst \<longrightarrow>
              (\<exists>done. subprocess w (Run [''rm'', ''-rf'', dst]) = Some done \<and> returncode done = 0))"
    and "replaced = (if path_exists w dst then [Run [''rm'', ''-rf'', dst]] else [])
                      @ [Makedirs dst]"
    and "not_found = CleanError (''Source dir not found: '' @ [CHR 0x27] @ src @ [CHR 0x27])"
  shows "(length (argv w) = 4 \<longrightarrow>
            (\<not> removed \<longrightarrow>
               fst (android_archive_unstripped_libs w) = [Run [''rm'', ''-rf'', dst]]
               \<and> (\<exists>e. snd (android_archive_unstripped_libs w) = Inl e \<and> e \<noteq> not_found))
            \<and> (removed \<and> os_error w (Makedirs dst) \<longrightarrow>
               android_archive_unstripped_libs w = (replaced, Inl OSError))
            \<and> (removed \<and> \<not> os_error w (Makedirs dst) \<and> \<not> path_isdir w src \<longrightarrow>
               android_archive_unstripped_libs w = (replaced, Inl not_found))
            \<and> (removed \<and> \<not> os_error w (Makedirs dst) \<and> path_isdir w src \<longrightarrow>
               android_archive_unstripped_libs w
                 = (replaced @ fst (for_each archive_abis (archive_one w src dst)),
                    snd (for_each archive_abis (archive_one w src dst)))))
         \<and> (snd (android_archive_unstripped_libs w) = Inl not_found \<longrightarrow>
              fst (android_archive_unstripped_libs w) = replaced
              \<and> removed \<and> \<not> os_error w (Makedirs dst) \<and> \<not> path_isdir w src)"
proof (cases "for_each archive_abis (archive_one w src dst)")
  case (Pair t r)
  then have "r \<noteq> Inl (CleanError m)" for m
    using for_each_archive_no_clean_error [of archive_abis w src dst m] by simp
  with Pair assms show ?thesis
    by (auto simp: android_archive_unstripped_libs_def outcome_defs Let_def
        split: if_splits option.splits)
qed

lemma replaced_world_fields:
  "\<not> batch (replaced_world b)"
  "length (argv (replaced_world b)) = 4"
  "Path (argv (replaced_world b) ! 2) = ''libs''"
  "Path (argv (replaced_world b) ! 3) = ''archive''"
  "path_exists (replaced_world b) p \<longleftrightarrow> p = ''archive''"
  "path_isdir (replaced_world b) p \<longleftrightarrow> b \<and> p = ''libs''"
  "subprocess (replaced_world b) ev = Some (succeeded [])"
  "\<not> os_error (replaced_world b) ev"
  by (simp_all add: replaced_world_def example_world_def Path_def path_root_def path_parts_def
      startswith_def)

lemma example_library_paths:
  "Path_joined (Path_joined ''libs'' ''armeabi-v7a'') ''libmain.so'' = ''libs/armeabi-v7a/libmain.so''"
  "Path_joined (Path_joined ''libs'' ''arm64-v8a'') ''libmain.so'' = ''libs/arm64-v8a/libmain.so''"
  "Path_joined (Path_joined ''libs'' ''x86'') ''libmain.so'' = ''libs/x86/libmain.so''"
  "Path_joined (Path_joined ''libs'' ''x86_64'') ''libmain.so'' = ''libs/x86_64/libmain.so''"
  by code_simp+

text \<open>
  With the arguments \<open>./libs/\<close> and \<open>archive/\<close> and an existing destination \<open>archive\<close>:
  without the source the run ends in the error, after \<open>rm -rf\<close> and the creation of the
  destination; with a source that holds no library it does the same and returns normally.
\<close>

theorem archive_destination_replaced_before_source_check_witness:
  "android_archive_unstripped_libs (replaced_world False)
     = ([Run [''rm'', ''-rf'', ''archive''], Makedirs ''archive''],
        Inl (CleanError (''Source dir not found: '' @ [CHR 0x27] @ ''libs'' @ [CHR 0x27])))
   \<and> android_archive_unstripped_libs (replaced_world True)
     = ([Run [''rm'', ''-rf'', ''archive''], Makedirs ''archive''], Inr ())"
proof -
  have loop: "for_each archive_abis (archive_one (replaced_world True) ''libs'' ''archive'')
                = ([], Inr ())"
    by (simp add: archive_abis_def archive_one_def replaced_world_fields outcome_defs Let_def
        example_library_paths)
  have r: "returncode (succeeded []) = 0"
    by (simp add: succeeded_def)
  show ?thesis
    using archive_destination_replaced_before_source_check
      [OF replaced_world_fields(1) replaced_world_fields(3) [symmetric]
          replaced_world_fields(4) [symmetric] refl refl refl, of False]
      archive_destination_replaced_before_source_check
      [OF replaced_world_fields(1) replaced_world_fields(3) [symmetric]
          replaced_world_fields(4) [symmetric] refl refl refl, of True]
      loop r
    by (simp add: replaced_world_fields)
qed

end
